theory Spec2Isabelle
  imports Complex_Main "HOL-Library.Sublist"
begin

section \<open>Python strings\<close>

text \<open>
  A Python \<open>str\<close> is a sequence of Unicode code points, and the sources (Weather\_zh.py,
  Agent.py, Ernie\_Client.py) work on Chinese text, so a string is a list of code points
  here: \<open>len\<close> is \<open>length\<close>, \<open>+\<close> is \<open>@\<close>. String literals of the source are written as
  their code points, with the literal's meaning beside them; ASCII literals go through
  \<open>ascii\<close>. The client that is modelled is the one of Weather\_zh.py; Weather.py is the
  same program with English literals (and lower-casing before its keyword tests), with the
  same control flow in every method below.
\<close>

type_synonym str = "nat list"

definition ascii :: "string \<Rightarrow> str" where
  "ascii s = map of_char s"

text \<open>\<open>sub in s\<close> on strings: \<open>sub\<close> occurs in \<open>s\<close> as a contiguous block.\<close>

fun str_in :: "str \<Rightarrow> str \<Rightarrow> bool" where
  "str_in sub [] = (sub = [])"
| "str_in sub (c # cs) = (prefix sub (c # cs) \<or> str_in sub cs)"

text \<open>\<open>sep.join(parts)\<close>.\<close>

fun join :: "str \<Rightarrow> str list \<Rightarrow> str" where
  "join sep [] = []"
| "join sep [p] = p"
| "join sep (p # q # ps) = p @ sep @ join sep (q # ps)"

text \<open>
  The slice \<open>xs[k:]\<close>: a negative \<open>k\<close> counts from the end and is clamped at the start
  of the list, a non-negative \<open>k\<close> is clamped at its end.
\<close>

definition slice_from :: "int \<Rightarrow> 'a list \<Rightarrow> 'a list" where
  "slice_from k xs =
     (if k < 0 then drop (nat (int (length xs) + k)) xs else drop (nat k) xs)"


section \<open>Dialogue memory (class DialogueMemory)\<close>

text \<open>
  A message is the dictionary \<open>{"role": .., "content": .., "timestamp": ..}\<close> that
  \<open>add_message\<close> builds. The timestamp is \<open>datetime.now().isoformat()\<close>; the clock is
  outside the program, so the reading is an argument of \<open>add_message\<close>.
\<close>

record message =
  role :: str
  content :: str
  timestamp :: str

record DialogueMemory =
  history :: "message list"
  max_history_length :: int

text \<open>\<open>__init__\<close>: an empty history, and the bound 5.\<close>

definition DialogueMemory_init :: DialogueMemory where
  "DialogueMemory_init = \<lparr>history = [], max_history_length = 5\<rparr>"

text \<open>
  \<open>add_message\<close>: append, then keep \<open>history[-max_history_length:]\<close> when the list
  has grown beyond the bound.
\<close>

definition add_message :: "str \<Rightarrow> str \<Rightarrow> str \<Rightarrow> DialogueMemory \<Rightarrow> DialogueMemory" where
  "add_message r c ts m =
     (let h = history m @ [\<lparr>role = r, content = c, timestamp = ts\<rparr>]
      in if int (length h) > max_history_length m
         then m\<lparr>history := slice_from (- max_history_length m) h\<rparr>
         else m\<lparr>history := h\<rparr>)"

definition clear :: "DialogueMemory \<Rightarrow> DialogueMemory" where
  "clear m = m\<lparr>history := []\<rparr>"

text \<open>A sequence of \<open>add_message\<close> calls, each given as (role, content, clock reading).\<close>

fun add_messages :: "(str \<times> str \<times> str) list \<Rightarrow> DialogueMemory \<Rightarrow> DialogueMemory" where
  "add_messages [] m = m"
| "add_messages ((r, c, ts) # calls) m = add_messages calls (add_message r c ts m)"

definition message_of :: "str \<times> str \<times> str \<Rightarrow> message" where
  "message_of call = (case call of (r, c, ts) \<Rightarrow> \<lparr>role = r, content = c, timestamp = ts\<rparr>)"

text \<open>
  \<open>range(start, stop, -2)\<close>, the index sequence of the loop in \<open>get_recent_context\<close>:
  \<open>start, start - 2, ..\<close> as long as the index is greater than \<open>stop\<close>.
\<close>

function range_down2 :: "int \<Rightarrow> int \<Rightarrow> int list" where
  "range_down2 i stop = (if i > stop then i # range_down2 (i - 2) stop else [])"
  by pat_completeness auto
termination
  by (relation "measure (\<lambda>(i, stop). nat (i - stop))") auto

declare range_down2.simps [simp del]

text \<open>The literals \<open>"user"\<close> and \<open>"assistant"\<close>, and the two labels of the rendering:
  U+7528 U+6237 (user) and U+52A9 U+624B (assistant), each followed by a colon and a space.\<close>

definition role_user :: str where
  "role_user = ascii ''user''"

definition role_assistant :: str where
  "role_assistant = ascii ''assistant''"

definition label_user :: str where
  "label_user = [29992, 25143, 58, 32]"

definition label_assistant :: str where
  "label_assistant = [21161, 25163, 58, 32]"

text \<open>
  One pass of the loop body at index \<open>i\<close>: the user line of \<open>history[i]\<close>, then the
  assistant line of \<open>history[i-1]\<close>, each only under the source's guard. The loop only
  produces indices \<open>i < len(history)\<close>, and the guards \<open>i >= 0\<close>, \<open>i-1 >= 0\<close> keep the
  subscripts from being negative, so no subscript is out of range.
\<close>

definition context_step :: "message list \<Rightarrow> int \<Rightarrow> str list" where
  "context_step h i =
     (if i \<ge> 0 \<and> role (h ! nat i) = role_user
      then [label_user @ content (h ! nat i)] else []) @
     (if i - 1 \<ge> 0 \<and> role (h ! nat (i - 1)) = role_assistant
      then [label_assistant @ content (h ! nat (i - 1))] else [])"

definition context_messages :: "message list \<Rightarrow> str list" where
  "context_messages h =
     concat (map (context_step h)
       (range_down2 (int (length h) - 1) (max (- 1) (int (length h) - 6))))"

definition get_recent_context :: "DialogueMemory \<Rightarrow> str" where
  "get_recent_context m =
     (if history m = [] then []
      else if context_messages (history m) = [] then []
      else join [10, 10] (rev (context_messages (history m))))"


text \<open>
  Two descriptions of what \<open>get_recent_context\<close> renders, for the properties below.
  \<open>pairs_newest_first n r\<close> reads the history newest turn first and takes \<open>n\<close> pairs
  (a turn, the turn stored just before it): of each pair it keeps the first turn when that
  is a user turn and the second when that is an assistant turn. \<open>alternating True r\<close>
  says that \<open>r\<close> starts with a user turn and that roles alternate from there.
\<close>

definition line_of :: "message \<Rightarrow> str" where
  "line_of x = (if role x = role_user then label_user else label_assistant) @ content x"

fun pairs_newest_first :: "nat \<Rightarrow> message list \<Rightarrow> str list" where
  "pairs_newest_first 0 r = []"
| "pairs_newest_first (Suc n) [] = []"
| "pairs_newest_first (Suc n) [u] =
     (if role u = role_user then [label_user @ content u] else [])"
| "pairs_newest_first (Suc n) (u # a # r) =
     (if role u = role_user then [label_user @ content u] else []) @
     (if role a = role_assistant then [label_assistant @ content a] else []) @
     pairs_newest_first n r"

fun alternating :: "bool \<Rightarrow> message list \<Rightarrow> bool" where
  "alternating u [] = True"
| "alternating u (x # r) =
     (role x = (if u then role_user else role_assistant) \<and> alternating (\<not> u) r)"


section \<open>Python values and the environment of the client\<close>

text \<open>
  The values that \<open>json.loads\<close> produces, which are also the values the client passes
  around: \<open>None\<close>, booleans, integers, floats, strings, lists and dictionaries with string
  keys (as the list of their items, in insertion order). A float is given by the number it
  stands for, or is one of the three special values; the program only compares floats with
  integer constants, which is a comparison of those numbers.
\<close>

datatype pyfloat = Finite real | PosInf | NegInf | NaN

datatype pyval =
    PNone
  | PBool bool
  | PInt int
  | PFloat pyfloat
  | PStr str
  | PList "pyval list"
  | PDict "(str \<times> pyval) list"

text \<open>The exceptions the modelled code can raise; all of them are subclasses of \<open>Exception\<close>.\<close>

datatype py_exception = KeyError | IndexError | TypeError | AttributeError

text \<open>
  A request to the chat completion endpoint (the messages as (role, content) pairs and the
  sampling parameters the call sets), and what comes back: the call or the reading of
  \<open>response.choices[0].message\<close> raises, the message has no content (\<open>None\<close>), or
  it has a content string.
\<close>

record chat_request =
  messages :: "(str \<times> str) list"
  temperature :: "int option"
  max_tokens :: "int option"

datatype completion_result = CompletionError | NoContent | Content str

text \<open>
  What \<open>session.call_tool\<close> followed by \<open>result.content[0].text\<close> gives: the call (or the
  reading of the text of the first content item) raises, the result is \<open>None\<close> or has an
  empty content list, or there is a text.
\<close>

datatype tool_result = ToolError | ToolEmpty | ToolText str

text \<open>
  What \<open>json.loads\<close> does with a text: it returns the parsed value, raises
  JSONDecodeError (the text is not JSON), or raises another exception.
\<close>

datatype parse_result = Parsed pyval | JSONDecodeError | ParseError

text \<open>
  Everything the client uses and does not define:
  \<^item> \<open>CITY_MAP\<close>, the dictionary of the module \<open>city\<close> (imported with
    \<open>from city import *\<close>; the module is not among the sources), as the list of its items;
  \<^item> \<open>pypinyin.lazy_pinyin\<close>, or \<open>None\<close> when \<open>import pypinyin\<close> raises ImportError;
  \<^item> the string methods \<open>lower\<close> and \<open>capitalize\<close>, and \<open>str()\<close> of a value that is
    not a string (what an f-string or \<open>print\<close> shows for it);
  \<^item> \<open>json.loads\<close>;
  \<^item> the chat completion endpoint and the tool transport (tool name, city argument).
\<close>

record env =
  CITY_MAP :: "(str \<times> str) list"
  lazy_pinyin :: "(str \<Rightarrow> str list) option"
  py_lower :: "str \<Rightarrow> str"
  py_capitalize :: "str \<Rightarrow> str"
  py_str :: "pyval \<Rightarrow> str"
  json_loads :: "str \<Rightarrow> parse_result"
  completions_create :: "chat_request \<Rightarrow> completion_result"
  call_tool :: "str \<Rightarrow> str \<Rightarrow> tool_result"


section \<open>City names (translate\_city)\<close>

text \<open>
  \<open>translate_city\<close> of Weather\_zh.py and Agent.py (the two are the same): the exact
  lookup, then the loop over \<open>CITY_MAP.items()\<close> that returns the English name of the
  first key that the city starts with or contains, then the pinyin of the city,
  capitalised, or the city itself when pypinyin cannot be imported.
\<close>

fun translate_city_loop :: "(str \<times> str) list \<Rightarrow> str \<Rightarrow> str option" where
  "translate_city_loop [] city = None"
| "translate_city_loop ((cn_city, en_city) # items) city =
     (if prefix cn_city city \<or> str_in cn_city city then Some en_city
      else translate_city_loop items city)"

definition translate_city :: "env \<Rightarrow> str \<Rightarrow> str" where
  "translate_city e city =
     (case map_of (CITY_MAP e) city of
        Some en_city \<Rightarrow> en_city
      | None \<Rightarrow>
          (case translate_city_loop (CITY_MAP e) city of
             Some en_city \<Rightarrow> en_city
           | None \<Rightarrow>
               (case lazy_pinyin e of
                  Some pinyin \<Rightarrow> py_capitalize e (concat (pinyin city))
                | None \<Rightarrow> city)))"

text \<open>
  Ernie\_Client.py has its own four-entry \<open>CITY_MAP\<close> (Beijing U+5317 U+4EAC, Shanghai
  U+4E0A U+6D77, Guangzhou U+5E7F U+5DDE, Shenzhen U+6DF1 U+5733) and its own
  \<open>translate_city\<close>, which is \<open>CITY_MAP.get(city, city)\<close>.
\<close>

definition Ernie_Client_CITY_MAP :: "(str \<times> str) list" where
  "Ernie_Client_CITY_MAP =
     [([21271, 20140], ascii ''Beijing''),
      ([19978, 28023], ascii ''Shanghai''),
      ([24191, 24030], ascii ''Guangzhou''),
      ([28145, 22323], ascii ''Shenzhen'')]"

definition Ernie_Client_translate_city :: "str \<Rightarrow> str" where
  "Ernie_Client_translate_city city =
     (case map_of Ernie_Client_CITY_MAP city of Some en_city \<Rightarrow> en_city | None \<Rightarrow> city)"

text \<open>
  An environment to evaluate the client in: the city table of Ernie\_Client.py, no
  pypinyin, string methods that leave the text as it is, a \<open>str()\<close> that shows nothing,
  a \<open>json.loads\<close> that rejects every text, a completion endpoint that always answers
  U+662F U+FF0C U+57CE U+5E02 ": " U+5317 U+4EAC ("yes, city: Beijing"), and a tool that
  raises.
\<close>

definition sample_env :: env where
  "sample_env =
     \<lparr>CITY_MAP = Ernie_Client_CITY_MAP,
      lazy_pinyin = None,
      py_lower = (\<lambda>s. s),
      py_capitalize = (\<lambda>s. s),
      py_str = (\<lambda>v. []),
      json_loads = (\<lambda>s. JSONDecodeError),
      completions_create = (\<lambda>r. Content [26159, 65292, 22478, 24066, 58, 32, 21271, 20140]),
      call_tool = (\<lambda>name city. ToolError)\<rparr>"


section \<open>Routing (is\_weather\_query, extract\_city, should\_call\_tool)\<close>

text \<open>
  \<open>str.isspace\<close> of one code point; \<open>strip()\<close> and the classes \<open>\s\<close>, \<open>\S\<close> of \<open>re\<close> use
  the same set: the ASCII controls 9 to 13 and 28 to 31, the space, U+0085, U+00A0,
  U+1680, U+2000 to U+200A, U+2028, U+2029, U+202F, U+205F and U+3000.
\<close>

definition isspace :: "nat \<Rightarrow> bool" where
  "isspace c =
     ((9 \<le> c \<and> c \<le> 13) \<or> (28 \<le> c \<and> c \<le> 32) \<or> c = 133 \<or> c = 160 \<or> c = 5760 \<or>
      (8192 \<le> c \<and> c \<le> 8202) \<or> c = 8232 \<or> c = 8233 \<or> c = 8239 \<or> c = 8287 \<or> c = 12288)"

definition strip :: "str \<Rightarrow> str" where
  "strip s = rev (dropWhile isspace (rev (dropWhile isspace s)))"

text \<open>
  \<open>s.replace(old, "")\<close>: the occurrences of \<open>old\<close> are removed from left to right,
  without overlap. (For an empty \<open>old\<close> Python inserts the empty replacement between the
  characters, which leaves \<open>s\<close> as it is.)
\<close>

fun remove_all :: "str \<Rightarrow> str \<Rightarrow> str" where
  "remove_all old [] = []"
| "remove_all old (c # cs) =
     (if old \<noteq> [] \<and> prefix old (c # cs) then remove_all old (drop (length old - 1) cs)
      else c # remove_all old cs)"

text \<open>
  The keywords of \<open>is_weather_query\<close> (Weather\_zh.py): weather U+5929 U+6C14, temperature
  U+6E29 U+5EA6 and U+6C14 U+6E29, humidity U+6E7F U+5EA6, rain U+4E0B U+96E8, snow
  U+4E0B U+96EA, sunny day U+6674 U+5929, rainy day U+96E8 U+5929, cloudy U+591A U+4E91,
  wind force U+98CE U+529B.
\<close>

definition weather_keywords :: "str list" where
  "weather_keywords =
     [[22825, 27668], [28201, 24230], [27668, 28201], [28287, 24230], [19979, 38632], [19979,
     38634], [26228, 22825], [38632, 22825], [22810, 20113], [39118, 21147]]"

definition is_weather_query :: "str \<Rightarrow> bool" where
  "is_weather_query query = list_ex (\<lambda>keyword. str_in keyword query) weather_keywords"

text \<open>
  The first pattern of \<open>extract_city\<close>, \<open>(.+?)(?:A|B|C)D\<close> with A = U+73B0 U+5728 (now),
  B = U+4ECA U+5929 (today), C = U+7684 (the possessive particle) and D = U+5929 U+6C14
  (weather). \<open>re.search\<close> tries the start positions from left to right. At one start
  position the lazy group takes one character (any but the line feed, code point 10) and
  is extended by one character at a time until the rest of the pattern matches right after
  it; \<open>tier1_at acc s\<close> is this attempt, with \<open>acc\<close> the characters the group already has
  and \<open>s\<close> the text that follows them. The result is group 1.
\<close>

definition tier1_tail :: "str \<Rightarrow> bool" where
  "tier1_tail s =
     (prefix ([29616, 22312] @ [22825, 27668]) s \<or>
      prefix ([20170, 22825] @ [22825, 27668]) s \<or>
      prefix ([30340] @ [22825, 27668]) s)"

fun tier1_at :: "str \<Rightarrow> str \<Rightarrow> str option" where
  "tier1_at acc [] = None"
| "tier1_at acc (c # cs) =
     (if c = 10 then None
      else if tier1_tail cs then Some (acc @ [c])
      else tier1_at (acc @ [c]) cs)"

fun tier1_search :: "str \<Rightarrow> str option" where
  "tier1_search [] = None"
| "tier1_search (c # cs) =
     (case tier1_at [] (c # cs) of
        Some g \<Rightarrow> Some g
      | None \<Rightarrow> tier1_search cs)"

text \<open>
  The second and the third pattern have the form \<open>((?:N1|N2|..)[..]?)\<close>: a name of a
  fixed list, then one optional character of a fixed set. At a start position the first
  name of the list that the text starts with is taken (the rest of the pattern cannot fail
  after it, so no later name is tried), and the optional character is taken when it is
  there. The start positions are tried from left to right. The result is group 1.
\<close>

fun first_prefix :: "str list \<Rightarrow> str \<Rightarrow> str option" where
  "first_prefix [] s = None"
| "first_prefix (name # names) s =
     (if prefix name s then Some name else first_prefix names s)"

definition optional_char :: "nat list \<Rightarrow> str \<Rightarrow> str" where
  "optional_char chars s =
     (case s of [] \<Rightarrow> [] | c # cs \<Rightarrow> if c \<in> set chars then [c] else [])"

fun name_search :: "str list \<Rightarrow> nat list \<Rightarrow> str \<Rightarrow> str option" where
  "name_search names chars [] = None"
| "name_search names chars (c # cs) =
     (case first_prefix names (c # cs) of
        Some name \<Rightarrow> Some (name @ optional_char chars (drop (length name) (c # cs)))
      | None \<Rightarrow> name_search names chars cs)"

text \<open>
  The names of the second pattern (the cities, from Beijing U+5317 U+4EAC to U+65B0 U+661F,
  in the order of the source) and of the third (the province-level regions).
\<close>

definition city_names :: "str list" where
  "city_names =
     [[21271, 20140], [19978, 28023], [24191, 24030], [28145, 22323], [22825, 27941], [37325,
     24198], [25104, 37117], [26477, 24030], [27494, 27721], [35199, 23433], [33487, 24030],
     [37073, 24030], [21335, 20140], [38738, 23707], [27784, 38451], [22823, 36830], [21414,
     38376], [31119, 24030], [38271, 27801], [21704, 23572, 28392], [27982, 21335], [38271,
     26149], [30707, 23478, 24196], [21512, 32933], [22826, 21407], [21335, 26124], [21335,
     23425], [26118, 26126], [36149, 38451], [28023, 21475], [20044, 40065, 26408, 40784],
     [21628, 21644, 28009, 29305], [38134, 24029], [35199, 23425], [20848, 24030], [25289,
     33832], [23425, 27874], [28201, 24030], [26080, 38177], [24120, 24030], [21335, 36890],
     [24464, 24030], [25196, 24030], [30416, 22478], [27888, 24030], [38215, 27743], [28142,
     23433], [36830, 20113, 28207], [23487, 36801], [22025, 20852], [28246, 24030], [32461,
     20852], [37329, 21326], [34914, 24030], [33311, 23665], [21488, 24030], [20029, 27700],
     [33436, 28246], [39532, 38797, 23665], [23433, 24198], [28353, 24030], [38428, 38451],
     [23487, 24030], [20845, 23433], [20147, 24030], [27744, 24030], [23459, 22478], [28467,
     24030], [21335, 24179], [19977, 26126], [40857, 23721], [23425, 24503], [26223, 24503,
     38215], [33805, 20065], [20061, 27743], [26032, 20313], [40560, 28525], [36195, 24030],
     [21513, 23433], [23452, 26149], [25242, 24030], [19978, 39286], [28100, 21338], [26531,
     24196], [19996, 33829], [28895, 21488], [28493, 22346], [27982, 23425], [27888, 23433],
     [23041, 28023], [26085, 29031], [20020, 27778], [24503, 24030], [32842, 22478], [28392,
     24030], [33743, 27901], [24320, 23553], [27931, 38451], [24179, 39030, 23665], [23433,
     38451], [40548, 22721], [26032, 20065], [28966, 20316], [28654, 38451], [35768, 26124],
     [28463, 27827], [19977, 38376, 23777], [21335, 38451], [21830, 19992], [20449, 38451],
     [21608, 21475], [39547, 39532, 24215], [40644, 30707], [21313, 22576], [23452, 26124],
     [35140, 38451], [37122, 24030], [33606, 38376], [23389, 24863], [33606, 24030], [40644,
     20872], [21688, 23425], [38543, 24030], [24681, 26045], [26666, 27954], [28248, 28525],
     [34913, 38451], [37045, 38451], [23731, 38451], [24120, 24503], [24352, 23478, 30028],
     [30410, 38451], [37108, 24030], [27704, 24030], [24576, 21270], [23044, 24213], [28248,
     35199], [38902, 20851], [29664, 28023], [27733, 22836], [20315, 23665], [27743, 38376],
     [28251, 27743], [33538, 21517], [32903, 24198], [24800, 24030], [26757, 24030], [27733,
     23614], [27827, 28304], [38451, 27743], [28165, 36828], [19996, 33694], [20013, 23665],
     [28526, 24030], [25581, 38451], [20113, 28014], [26611, 24030], [26690, 26519], [26791,
     24030], [21271, 28023], [38450, 22478, 28207], [38054, 24030], [36149, 28207], [29577,
     26519], [30334, 33394], [36154, 24030], [27827, 27744], [26469, 23486], [23815, 24038],
     [20747, 24030], [33258, 36129], [25856, 26525, 33457], [27896, 24030], [24503, 38451],
     [32501, 38451], [24191, 20803], [36930, 23425], [20869, 27743], [20048, 23665], [21335,
     20805], [30473, 23665], [23452, 23486], [24191, 23433], [36798, 24030], [38597, 23433],
     [24052, 20013], [36164, 38451], [38463, 22365], [29976, 23388], [20937, 23665], [20845,
     30424, 27700], [36981, 20041], [23433, 39034], [27605, 33410], [38108, 20161], [40660,
     19996, 21335], [40660, 21335], [40660, 35199, 21335], [26354, 38742], [29577, 28330],
     [20445, 23665], [26157, 36890], [20029, 27743], [26222, 27953], [20020, 27815], [26970,
     38596], [32418, 27827], [25991, 23665], [35199, 21452, 29256, 32435], [22823, 29702],
     [24503, 23439], [24594, 27743], [36842, 24198], [26124, 37117], [26519, 33437], [23665,
     21335], [37027, 26354], [38463, 37324], [38108, 24029], [23453, 40481], [21688, 38451],
     [28205, 21335], [24310, 23433], [27721, 20013], [27014, 26519], [23433, 24247], [21830,
     27931], [22025, 23786, 20851], [37329, 26124], [30333, 38134], [22825, 27700], [27494,
     23041], [24352, 25494], [24179, 20937], [37202, 27849], [24198, 38451], [23450, 35199],
     [38471, 21335], [20020, 22799], [29976, 21335], [28023, 19996], [28023, 21271], [40644,
     21335], [28023, 21335], [26524, 27931], [29577, 26641], [28023, 35199], [30707, 22068,
     23665], [21556, 24544], [22266, 21407], [20013, 21355], [20811, 25289, 29595, 20381],
     [21520, 40065, 30058], [21704, 23494], [26124, 21513], [21338, 23572, 22612, 25289],
     [24052, 38899, 37101, 26974], [38463, 20811, 33487], [20811, 23388, 21202, 33487], [21888,
     20160], [21644, 30000], [20234, 29313], [22612, 22478], [38463, 21202, 27888], [30707,
     27827, 23376], [38463, 25289, 23572], [22270, 26408, 33298, 20811], [20116, 23478, 28192],
     [21271, 23663], [38081, 38376, 20851], [21452, 27827], [21487, 20811, 36798, 25289],
     [26118, 29577], [32993, 26472, 27827], [26032, 26143]]"

definition province_names :: "str list" where
  "province_names =
     [[21271, 20140], [22825, 27941], [19978, 28023], [37325, 24198], [27827, 21271], [23665,
     35199], [36797, 23425], [21513, 26519], [40657, 40857, 27743], [27743, 33487], [27993,
     27743], [23433, 24509], [31119, 24314], [27743, 35199], [23665, 19996], [27827, 21335],
     [28246, 21271], [28246, 21335], [24191, 19996], [28023, 21335], [22235, 24029], [36149,
     24030], [20113, 21335], [38485, 35199], [29976, 32899], [38738, 28023], [21488, 28286],
     [20869, 33945, 21476], [24191, 35199], [35199, 34255], [23425, 22799], [26032, 30086],
     [39321, 28207], [28595, 38376]]"

text \<open>
  \<open>extract_city\<close>: the three words U+4F60 (you), U+8BF7 U+95EE (may I ask) and U+77E5 U+9053
  (know) are removed, the text is stripped, and the three patterns are tried in order. The
  optional character of the second pattern is U+5E02 (city) or U+7701 (province); that of
  the third is one of U+7701, U+5E02, U+81EA, U+6CBB, U+533A.
\<close>

definition without_prefix_words :: "str \<Rightarrow> str" where
  "without_prefix_words query =
     strip (remove_all [30693, 36947] (remove_all [35831, 38382] (remove_all [20320] query)))"

definition extract_city :: "str \<Rightarrow> str option" where
  "extract_city query =
     (let q = without_prefix_words query
      in case tier1_search q of
           Some g \<Rightarrow> Some (strip g)
         | None \<Rightarrow>
             (case name_search city_names [24066, 30465] q of
                Some g \<Rightarrow> Some (strip g)
              | None \<Rightarrow>
                  (case name_search province_names [30465, 24066, 33258, 27835, 21306] q of
                     Some g \<Rightarrow> Some (strip g)
                   | None \<Rightarrow> None)))"

text \<open>
  The pattern \<open>L[:X]\s*(\S+)\<close> that \<open>should_call_tool\<close> applies to the model's reply, with
  L = U+57CE U+5E02 (city) and X the full-width colon U+FF1A: after the label and a colon the
  white space is skipped and the longest run of other characters is group 1, which has to
  be non-empty.
\<close>

definition city_label_at :: "str \<Rightarrow> str option" where
  "city_label_at s =
     (if prefix [22478, 24066] s then
        (case drop 2 s of
           [] \<Rightarrow> None
         | c # cs \<Rightarrow>
             if c = 58 \<or> c = 65306 then
               (let g = takeWhile (\<lambda>x. \<not> isspace x) (dropWhile isspace cs)
                in if g = [] then None else Some g)
             else None)
      else None)"

fun city_label_search :: "str \<Rightarrow> str option" where
  "city_label_search [] = None"
| "city_label_search (c # cs) =
     (case city_label_at (c # cs) of
        Some g \<Rightarrow> Some g
      | None \<Rightarrow> city_label_search cs)"

text \<open>
  The system prompt of the decision request, before and after the place of \<open>{context}\<close>
  (the template has no other replacement field).
\<close>

definition decision_prompt_before_context :: str where
  "decision_prompt_before_context =
     [10, 32, 32, 32, 32, 32, 32, 32, 32, 20320, 26159, 19968, 20010, 24110, 21161, 21028,
     26029, 29992, 25143, 24847, 22270, 30340, 21161, 25163, 12290, 35831, 21028, 26029, 29992,
     25143, 26159, 21542, 22312, 35810, 38382, 22825, 27668, 20449, 24687, 12290, 10, 32, 32,
     32, 32, 32, 32, 32, 32, 22914, 26524, 26159, 65292, 25552, 21462, 20854, 20013, 30340,
     22478, 24066, 21517, 31216, 65307, 22914, 26524, 19981, 26159, 65292, 36820, 22238, 78,
     111, 110, 101, 12290, 10, 32, 32, 32, 32, 32, 32, 32, 32, 10, 32, 32, 32, 32, 32, 32, 32,
     32, 21028, 26029, 21407, 21017, 65306, 10, 32, 32, 32, 32, 32, 32, 32, 32, 49, 46, 32,
     22914, 26524, 26597, 35810, 26126, 26174, 26159, 35810, 38382, 22825, 27668, 65288, 21253,
     21547, 34, 22825, 27668, 34, 12289, 34, 28201, 24230, 34, 12289, 34, 28287, 24230, 34,
     12289, 34, 19979, 38632, 34, 31561, 35789, 65289, 65292, 19988, 25351, 23450, 20102, 22478,
     24066, 65292, 21017, 24212, 35813, 35843, 29992, 22825, 27668, 26597, 35810, 24037, 20855,
     10, 32, 32, 32, 32, 32, 32, 32, 32, 50, 46, 32, 22914, 26524, 26597, 35810, 26159, 38386,
     32842, 12289, 19968, 33324, 24615, 38382, 39064, 25110, 19981, 38656, 35201, 22806, 37096,
     25968, 25454, 30340, 35831, 27714, 65292, 21017, 19981, 38656, 35201, 35843, 29992, 24037,
     20855, 10, 32, 32, 32, 32, 32, 32, 32, 32, 51, 46, 32, 22914, 26524, 26597, 35810, 26684,
     24335, 19981, 31526, 21512, 26631, 20934, 22825, 27668, 26597, 35810, 26684, 24335, 65288,
     22914, 34, 21271, 20140, 29616, 22312, 22825, 27668, 22914, 20309, 34, 65289, 65292, 20294,
     24847, 22270, 26126, 26174, 26159, 26597, 35810, 22825, 27668, 65292, 20173, 24212, 35843,
     29992, 24037, 20855, 10, 32, 32, 32, 32, 32, 32, 32, 32, 52, 46, 32, 20248, 20808, 20351,
     29992, 24037, 20855, 33719, 21462, 23454, 26102, 25968, 25454, 65292, 32780, 19981, 26159,
     20381, 36182, 20869, 32622, 30693, 35782, 10, 32, 32, 32, 32, 32, 32, 32, 32, 10, 32, 32,
     32, 32, 32, 32, 32, 32, 24403, 21069, 23545, 35805, 19978, 19979, 25991, 65306, 10, 32, 32,
     32, 32, 32, 32, 32, 32]"

definition decision_prompt_after_context :: str where
  "decision_prompt_after_context =
     [10, 32, 32, 32, 32, 32, 32, 32, 32, 10, 32, 32, 32, 32, 32, 32, 32, 32, 35831, 26681,
     25454, 20197, 19978, 21407, 21017, 65292, 21028, 26029, 20197, 19979, 26597, 35810, 26159,
     21542, 38656, 35201, 35843, 29992, 24037, 20855, 65288, 22238, 31572, 34, 26159, 34, 25110,
     34, 21542, 34, 65289, 65292, 22914, 26524, 38656, 35201, 35843, 29992, 24037, 20855, 65292,
     35831, 25552, 21462, 22478, 24066, 21517, 31216, 65306, 10, 32, 32, 32, 32, 32, 32, 32, 32]"

text \<open>
  The state of the client that the modelled methods use: the dialogue memory, and the flag
  that \<open>connect_to_server\<close> sets when the server lists the tool \<open>query_weather\<close>.
\<close>

record MCPClient =
  dialogue_memory :: DialogueMemory
  tools_available :: bool

text \<open>
  What a method asks of the outside, in the order of the calls: a chat completion, or the
  tool with its name and city argument.
\<close>

datatype event = ModelCall chat_request | ToolCall str str

text \<open>
  \<open>should_call_tool\<close>. With a weather keyword the answer comes from \<open>extract_city\<close> alone.
  Otherwise the model is asked, with the rendered context (or U+65E0, "none", when that is
  empty) in the system prompt. The whole of the call, the reading of the reply and its
  interpretation is inside \<open>try\<close>, and \<open>except Exception\<close> answers \<open>(False, None)\<close>: that
  covers a failing call and a reply without content, on which \<open>.strip()\<close> raises. The
  negative markers are U+5426 (no), U+4E0D U+9700 U+8981 (not needed) and \<open>None\<close>.
  The result is the pair and the requests made.
\<close>

definition decision_request :: "DialogueMemory \<Rightarrow> str \<Rightarrow> chat_request" where
  "decision_request memory query =
     (let context = get_recent_context memory;
          system_prompt_with_context =
            decision_prompt_before_context @ (if context \<noteq> [] then context else [26080]) @
            decision_prompt_after_context
      in \<lparr>messages = [(ascii ''system'', system_prompt_with_context), (ascii ''user'', query)],
          temperature = Some 0,
          max_tokens = Some 50\<rparr>)"

definition interpret_decision :: "str \<Rightarrow> str \<Rightarrow> bool \<times> str option" where
  "interpret_decision decision query =
     (if str_in [21542] decision \<or> str_in [19981, 38656, 35201] decision \<or>
         str_in (ascii ''None'') decision
      then (False, None)
      else (case city_label_search decision of
              Some g \<Rightarrow> (True, Some g)
            | None \<Rightarrow> (let city = extract_city query in (city \<noteq> None, city))))"

definition should_call_tool ::
  "env \<Rightarrow> MCPClient \<Rightarrow> str \<Rightarrow> (bool \<times> str option) \<times> event list" where
  "should_call_tool e client query =
     (if is_weather_query query then
        (let city = extract_city query in ((city \<noteq> None, city), []))
      else
        (let request = decision_request (dialogue_memory client) query
         in (case completions_create e request of
               CompletionError \<Rightarrow> ((False, None), [ModelCall request])
             | NoContent \<Rightarrow> ((False, None), [ModelCall request])
             | Content text \<Rightarrow> (interpret_decision (strip text) query, [ModelCall request]))))"


section \<open>Operations on Python values\<close>

text \<open>
  The truth value of a value (\<open>if v\<close>, \<open>not v\<close>); both float zeros are the number 0.
\<close>

fun truthy :: "pyval \<Rightarrow> bool" where
  "truthy PNone = False"
| "truthy (PBool b) = b"
| "truthy (PInt i) = (i \<noteq> 0)"
| "truthy (PFloat f) = (f \<noteq> Finite 0)"
| "truthy (PStr s) = (s \<noteq> [])"
| "truthy (PList xs) = (xs \<noteq> [])"
| "truthy (PDict d) = (d \<noteq> [])"

text \<open>
  \<open>key in v\<close> for a string \<open>key\<close>: a key of a dictionary, an element of a list, a
  substring of a string; TypeError for a value that is not a container.
\<close>

fun py_in :: "str \<Rightarrow> pyval \<Rightarrow> py_exception + bool" where
  "py_in k (PDict d) = Inr (map_of d k \<noteq> None)"
| "py_in k (PList xs) = Inr (PStr k \<in> set xs)"
| "py_in k (PStr s) = Inr (str_in k s)"
| "py_in k v = Inl TypeError"

text \<open>\<open>v[key]\<close> for a string \<open>key\<close>, and \<open>v[0]\<close>.\<close>

fun subscript :: "pyval \<Rightarrow> str \<Rightarrow> py_exception + pyval" where
  "subscript (PDict d) k = (case map_of d k of Some v \<Rightarrow> Inr v | None \<Rightarrow> Inl KeyError)"
| "subscript v k = Inl TypeError"

fun subscript0 :: "pyval \<Rightarrow> py_exception + pyval" where
  "subscript0 (PList xs) = (case xs of [] \<Rightarrow> Inl IndexError | x # rest \<Rightarrow> Inr x)"
| "subscript0 (PStr s) = (case s of [] \<Rightarrow> Inl IndexError | c # rest \<Rightarrow> Inr (PStr [c]))"
| "subscript0 (PDict d) = Inl KeyError"
| "subscript0 v = Inl TypeError"

text \<open>\<open>v.get(key, default)\<close>: only a dictionary has the method.\<close>

fun dict_get :: "pyval \<Rightarrow> str \<Rightarrow> pyval \<Rightarrow> py_exception + pyval" where
  "dict_get (PDict d) k dflt = Inr (case map_of d k of Some v \<Rightarrow> v | None \<Rightarrow> dflt)"
| "dict_get v k dflt = Inl AttributeError"

text \<open>
  \<open>v > n\<close> and \<open>v < n\<close> for an integer constant \<open>n\<close>: numbers compare by value
  (\<open>True\<close> is 1, \<open>False\<close> is 0, every comparison with NaN is false), anything else raises
  TypeError.
\<close>

fun greater_than :: "pyval \<Rightarrow> int \<Rightarrow> py_exception + bool" where
  "greater_than (PInt i) n = Inr (i > n)"
| "greater_than (PBool b) n = Inr ((if b then 1 else 0) > n)"
| "greater_than (PFloat (Finite r)) n = Inr (r > of_int n)"
| "greater_than (PFloat PosInf) n = Inr True"
| "greater_than (PFloat NegInf) n = Inr False"
| "greater_than (PFloat NaN) n = Inr False"
| "greater_than v n = Inl TypeError"

fun less_than :: "pyval \<Rightarrow> int \<Rightarrow> py_exception + bool" where
  "less_than (PInt i) n = Inr (i < n)"
| "less_than (PBool b) n = Inr ((if b then 1 else 0) < n)"
| "less_than (PFloat (Finite r)) n = Inr (r < of_int n)"
| "less_than (PFloat PosInf) n = Inr False"
| "less_than (PFloat NegInf) n = Inr True"
| "less_than (PFloat NaN) n = Inr False"
| "less_than v n = Inl TypeError"

text \<open>A string method (\<open>lower\<close>, \<open>capitalize\<close>) called on a value: AttributeError unless
  the value is a string.\<close>

definition str_method :: "(str \<Rightarrow> str) \<Rightarrow> pyval \<Rightarrow> py_exception + str" where
  "str_method f v = (case v of PStr s \<Rightarrow> Inr (f s) | _ \<Rightarrow> Inl AttributeError)"

text \<open>
  What an f-string puts in for \<open>{v}\<close>: a string as it is, another value through \<open>str()\<close>.
  A reply or a stored message content is only ever used in this way (the chat loop prints
  the reply in an f-string, \<open>get_recent_context\<close> formats the content in one), so replies
  and contents are kept as this text.
\<close>

definition format_value :: "env \<Rightarrow> pyval \<Rightarrow> str" where
  "format_value e v = (case v of PStr s \<Rightarrow> s | _ \<Rightarrow> py_str e v)"

text \<open>Sequencing of steps that may raise: the first exception ends the sequence.\<close>

definition and_then :: "py_exception + 'a \<Rightarrow> ('a \<Rightarrow> py_exception + 'b) \<Rightarrow> py_exception + 'b" where
  "and_then x f = (case x of Inl ex \<Rightarrow> Inl ex | Inr v \<Rightarrow> f v)"


section \<open>The weather tool (call\_weather\_tool)\<close>

text \<open>
  \<open>call_weather_tool\<close> returns a Python value and makes at most one tool call. \<open>None\<close>
  is returned when the tool is not available, when the call raises, when the result is
  empty, when \<open>json.loads\<close> raises anything but JSONDecodeError, and when the parsed value
  is false or has \<open>"error"\<close> in it (if \<open>"error" in\<close> or the message printed in that branch
  raises, the outer \<open>except Exception\<close> returns \<open>None\<close> as well). A text that is not
  JSON, on which \<open>json.loads\<close> raises JSONDecodeError, is returned as
  \<open>{"formatted_text": text}\<close>.
\<close>

definition call_weather_tool :: "env \<Rightarrow> MCPClient \<Rightarrow> str \<Rightarrow> pyval \<times> event list" where
  "call_weather_tool e client city =
     (if \<not> tools_available client then (PNone, [])
      else
        (let translated_city = translate_city e city;
             call = ToolCall (ascii ''query_weather'') translated_city
         in case call_tool e (ascii ''query_weather'') translated_city of
              ToolError \<Rightarrow> (PNone, [call])
            | ToolEmpty \<Rightarrow> (PNone, [call])
            | ToolText text \<Rightarrow>
                (case json_loads e text of
                   JSONDecodeError \<Rightarrow> (PDict [(ascii ''formatted_text'', PStr text)], [call])
                 | ParseError \<Rightarrow> (PNone, [call])
                 | Parsed weather_data \<Rightarrow>
                     (if \<not> truthy weather_data then (PNone, [call])
                      else (case py_in (ascii ''error'') weather_data of
                              Inl ex \<Rightarrow> (PNone, [call])
                            | Inr has_error \<Rightarrow>
                                if has_error then (PNone, [call])
                                else (weather_data, [call]))))))"


section \<open>Suitability for going out (get\_weather\_suitability)\<close>

text \<open>
  The three levels: suitable U+9002 U+5408, not very suitable U+4E0D U+592A U+9002 U+5408,
  not suitable U+4E0D U+9002 U+5408.
\<close>

definition suitable :: str where
  "suitable = [36866, 21512]"

definition not_very_suitable :: str where
  "not_very_suitable = [19981, 22826, 36866, 21512]"

definition not_suitable :: str where
  "not_suitable = [19981, 36866, 21512]"

text \<open>
  The judgement is the pair (suitability, reasons); each rule takes the pair so far and
  returns the new one. The rules are the \<open>if\<close>/\<open>elif\<close> chains of the source, in their
  order: a later branch is only looked at when every earlier condition of its chain was
  false. The reasons: temperature rather high, temperature too high, temperature rather
  low, temperature too low; precipitation; wind rather strong, wind too strong; air quality
  rather poor, air quality poor.
\<close>

definition judge_temperature ::
  "pyval \<Rightarrow> str \<times> str list \<Rightarrow> py_exception + (str \<times> str list)" where
  "judge_temperature temp j =
     and_then (greater_than temp 30) (\<lambda>c1.
       if c1 then Inr (not_very_suitable, snd j @ [[27668, 28201, 36739, 39640]])
       else and_then (greater_than temp 35) (\<lambda>c2.
         if c2 then Inr (not_suitable, snd j @ [[27668, 28201, 36807, 39640]])
         else and_then (less_than temp 5) (\<lambda>c3.
           if c3 then Inr (not_very_suitable, snd j @ [[27668, 28201, 36739, 20302]])
           else and_then (less_than temp (- 5)) (\<lambda>c4.
             if c4 then Inr (not_suitable, snd j @ [[27668, 28201, 36807, 20302]])
             else Inr j))))"

definition bad_weather_keywords :: "str list" where
  "bad_weather_keywords =
     [ascii ''rain'', ascii ''thunderstorm'', ascii ''drizzle'', ascii ''snow'', ascii ''shower'']"

definition judge_description ::
  "env \<Rightarrow> pyval \<Rightarrow> str \<times> str list \<Rightarrow> py_exception + (str \<times> str list)" where
  "judge_description e weather_desc j =
     and_then (str_method (py_lower e) weather_desc) (\<lambda>lowered.
       if list_ex (\<lambda>keyword. str_in keyword lowered) bad_weather_keywords
       then Inr (not_very_suitable, snd j @ [[26377, 38477, 27700]])
       else Inr j)"

definition judge_wind ::
  "pyval \<Rightarrow> str \<times> str list \<Rightarrow> py_exception + (str \<times> str list)" where
  "judge_wind wind_speed j =
     and_then (greater_than wind_speed 10) (\<lambda>c1.
       if c1 then Inr (not_very_suitable, snd j @ [[39118, 21147, 36739, 22823]])
       else and_then (greater_than wind_speed 15) (\<lambda>c2.
         if c2 then Inr (not_suitable, snd j @ [[39118, 21147, 36807, 22823]])
         else Inr j))"

definition judge_air_quality ::
  "pyval \<Rightarrow> str \<times> str list \<Rightarrow> py_exception + (str \<times> str list)" where
  "judge_air_quality weather_data j =
     and_then (py_in (ascii ''air_quality'') weather_data) (\<lambda>present.
       if \<not> present then Inr j
       else
         and_then (subscript weather_data (ascii ''air_quality'')) (\<lambda>air_quality.
         and_then (dict_get air_quality (ascii ''aqi'') (PInt 0)) (\<lambda>aqi.
         and_then (greater_than aqi 150) (\<lambda>c1.
           if c1 then Inr (not_very_suitable, snd j @ [[31354, 27668, 36136, 37327, 36739, 24046]])
           else and_then (greater_than aqi 200) (\<lambda>c2.
             if c2 then Inr (not_suitable, snd j @ [[31354, 27668, 36136, 37327, 24046]])
             else Inr j)))))"

text \<open>
  The four rules in the order of the source, from (suitable, no reasons).
\<close>

definition judge ::
  "env \<Rightarrow> pyval \<Rightarrow> pyval \<Rightarrow> pyval \<Rightarrow> pyval \<Rightarrow> py_exception + (str \<times> str list)" where
  "judge e weather_data temp weather_desc wind_speed =
     and_then (judge_temperature temp (suitable, [])) (\<lambda>j1.
     and_then (judge_description e weather_desc j1) (\<lambda>j2.
     and_then (judge_wind wind_speed j2) (\<lambda>j3.
     judge_air_quality weather_data j3)))"

text \<open>
  The text of the answer: the header with the place, the four lines of data, and the
  sentence of the verdict, which lists the reasons unless the level is still "suitable".
\<close>

definition suitability_sentence :: "str \<times> str list \<Rightarrow> str" where
  "suitability_sentence j =
     (if fst j = suitable then
        [9989, 32, 24403, 21069, 22825, 27668, 29366, 20917, 33391, 22909, 65292, 42, 42, 36866,
        21512, 22806, 20986, 27963, 21160, 42, 42, 12290, 24314, 35758, 26681, 25454, 22825,
        27668, 24773, 20917, 36866, 24403, 30528, 35013, 12290]
      else
        [9888, 65039, 32, 24403, 21069, 22825, 27668] @ join (ascii '', '') (snd j) @
        [65292, 42, 42] @ fst j @
        [22806, 20986, 42, 42, 12290, 24314, 35758, 26681, 25454, 23454, 38469, 24773, 20917,
        35843, 25972, 35745, 21010, 12290])"

definition suitability_response ::
  "env \<Rightarrow> pyval \<Rightarrow> pyval \<Rightarrow> str \<Rightarrow> pyval \<Rightarrow> pyval \<Rightarrow> str \<times> str list \<Rightarrow> str" where
  "suitability_response e city temp capitalized_desc humidity wind_speed j =
     [26681, 25454] @ format_value e city @ [30340, 24403, 21069, 22825, 27668, 24773, 20917, 65306, 10] @
     [45, 32, 28201, 24230, 58, 32] @ format_value e temp @ [176, 67, 10] @
     [45, 32, 22825, 27668, 58, 32] @ capitalized_desc @ [10] @
     [45, 32, 28287, 24230, 58, 32] @ format_value e humidity @ [37, 10] @
     [45, 32, 39118, 36895, 58, 32] @ format_value e wind_speed @ ascii '' m/s'' @ [10, 10] @
     suitability_sentence j"

text \<open>
  The body of the \<open>try\<close> block of \<open>get_weather_suitability\<close>, and the method: any exception
  is answered with \<open>None\<close>. The default place name is U+8BE5 U+5730 U+533A (this area).
\<close>

definition get_weather_suitability_try :: "env \<Rightarrow> pyval \<Rightarrow> py_exception + pyval" where
  "get_weather_suitability_try e weather_data =
     and_then (py_in (ascii ''formatted_text'') weather_data) (\<lambda>formatted.
       if formatted then subscript weather_data (ascii ''formatted_text'')
       else
         and_then (dict_get weather_data (ascii ''name'') (PStr [35813, 22320, 21306])) (\<lambda>city.
         and_then (subscript weather_data (ascii ''main'')) (\<lambda>main1.
         and_then (subscript main1 (ascii ''temp'')) (\<lambda>temp.
         and_then (subscript weather_data (ascii ''weather'')) (\<lambda>weather.
         and_then (subscript0 weather) (\<lambda>weather0.
         and_then (subscript weather0 (ascii ''description'')) (\<lambda>weather_desc.
         and_then (subscript weather_data (ascii ''main'')) (\<lambda>main2.
         and_then (subscript main2 (ascii ''humidity'')) (\<lambda>humidity.
         and_then (subscript weather_data (ascii ''wind'')) (\<lambda>wind.
         and_then (subscript wind (ascii ''speed'')) (\<lambda>wind_speed.
         and_then (judge e weather_data temp weather_desc wind_speed) (\<lambda>j.
         and_then (str_method (py_capitalize e) weather_desc) (\<lambda>capitalized_desc.
           Inr (PStr (suitability_response e city temp capitalized_desc humidity
                        wind_speed j)))))))))))))))"

definition get_weather_suitability :: "env \<Rightarrow> pyval \<Rightarrow> pyval" where
  "get_weather_suitability e weather_data =
     (case get_weather_suitability_try e weather_data of
        Inl ex \<Rightarrow> PNone
      | Inr response \<Rightarrow> response)"


section \<open>Direct answers (get\_local\_model\_response)\<close>

text \<open>
  The system prompt of the answer request, cut at \<open>{context}\<close> and at \<open>{query}\<close>, and the
  apology that is returned when the call or the reading of its reply raises.
\<close>

definition answer_prompt_before_context :: str where
  "answer_prompt_before_context =
     [10, 32, 32, 32, 32, 32, 32, 32, 32, 32, 32, 32, 32, 20320, 26159, 19968, 20010, 21451,
     22909, 30340, 65, 73, 21161, 25163, 65292, 33021, 22815, 29702, 35299, 19978, 19979, 25991,
     24182, 25552, 20379, 26377, 24110, 21161, 30340, 22238, 31572, 12290, 10, 32, 32, 32, 32,
     32, 32, 32, 32, 32, 32, 32, 32, 24403, 21069, 23545, 35805, 19978, 19979, 25991, 65306, 10,
     32, 32, 32, 32, 32, 32, 32, 32, 32, 32, 32, 32]"

definition answer_prompt_before_query :: str where
  "answer_prompt_before_query =
     [10, 32, 32, 32, 32, 32, 32, 32, 32, 32, 32, 32, 32, 10, 32, 32, 32, 32, 32, 32, 32, 32,
     32, 32, 32, 32, 29992, 25143, 38382, 39064, 65306, 10, 32, 32, 32, 32, 32, 32, 32, 32, 32,
     32, 32, 32]"

definition answer_prompt_after_query :: str where
  "answer_prompt_after_query =
     [10, 32, 32, 32, 32, 32, 32, 32, 32, 32, 32, 32, 32, 10, 32, 32, 32, 32, 32, 32, 32, 32,
     32, 32, 32, 32, 35831, 26681, 25454, 19978, 19979, 25991, 21644, 29992, 25143, 38382,
     39064, 65292, 25552, 20379, 33258, 28982, 12289, 26377, 24110, 21161, 30340, 22238, 31572,
     12290, 10, 32, 32, 32, 32, 32, 32, 32, 32, 32, 32, 32, 32]"

definition local_model_apology :: str where
  "local_model_apology =
     [25265, 27465, 65292, 25105, 26242, 26102, 26080, 27861, 22788, 29702, 36825, 20010, 35831,
     27714, 65292, 35831, 31245, 21518, 20877, 35797, 12290]"

definition answer_request :: "DialogueMemory \<Rightarrow> str \<Rightarrow> chat_request" where
  "answer_request memory query =
     (let context = get_recent_context memory;
          prompt_with_context =
            answer_prompt_before_context @ (if context \<noteq> [] then context else [26080]) @
            answer_prompt_before_query @ query @ answer_prompt_after_query
      in \<lparr>messages = [(ascii ''system'', prompt_with_context)],
          temperature = None,
          max_tokens = None\<rparr>)"

definition get_local_model_response :: "env \<Rightarrow> MCPClient \<Rightarrow> str \<Rightarrow> str \<times> event list" where
  "get_local_model_response e client query =
     (let request = answer_request (dialogue_memory client) query
      in case completions_create e request of
           Content text \<Rightarrow> (strip text, [ModelCall request])
         | CompletionError \<Rightarrow> (local_model_apology, [ModelCall request])
         | NoContent \<Rightarrow> (local_model_apology, [ModelCall request]))"


section \<open>One turn (process\_query)\<close>

text \<open>
  The fallback for a failed weather call, which names the city; the apology of the outer
  \<open>except\<close>; the plain report.
\<close>

definition fallback_response :: "str \<Rightarrow> str" where
  "fallback_response city =
     [25265, 27465, 65292, 25105, 26242, 26102, 26080, 27861, 33719, 21462] @ city @
     [30340, 22825, 27668, 20449, 24687, 12290, 20320, 21487, 20197, 31245, 21518, 20877, 35797,
     65292, 25110, 32773, 26597, 30475, 22825, 27668, 39044, 25253, 24212, 29992, 33719, 21462,
     26368, 26032, 20449, 24687, 12290]"

definition error_response :: str where
  "error_response =
     [25265, 27465, 65292, 22788, 29702, 20320, 30340, 35831, 27714, 26102, 20986, 29616, 20102,
     38169, 35823, 65292, 35831, 31245, 21518, 20877, 35797, 12290]"

definition weather_report ::
  "env \<Rightarrow> pyval \<Rightarrow> pyval \<Rightarrow> pyval \<Rightarrow> pyval \<Rightarrow> pyval \<Rightarrow> str" where
  "weather_report e city_name temp weather_desc humidity wind_speed =
     [127757, 32] @ format_value e city_name @ [24403, 21069, 22825, 27668, 65306, 10] @
     [127777, 32, 28201, 24230, 58, 32] @ format_value e temp @ [176, 67, 10] @
     [127780, 32, 22825, 27668, 58, 32] @ format_value e weather_desc @ [10] @
     [128167, 32, 28287, 24230, 58, 32] @ format_value e humidity @ [37, 10] @
     [127788, 32, 39118, 36895, 58, 32] @ format_value e wind_speed @ ascii '' m/s''"

text \<open>
  The guard \<open>if should_call and city\<close>: the city the tool is called with, if any. An
  empty string is false like \<open>None\<close>.
\<close>

definition tool_city :: "bool \<times> str option \<Rightarrow> str option" where
  "tool_city decision =
     (case decision of
        (should_call, city) \<Rightarrow>
          (if should_call then
             (case city of None \<Rightarrow> None | Some c \<Rightarrow> if c \<noteq> [] then Some c else None)
           else None))"

text \<open>
  The reply for a weather value that is true. With one of the cues U+9002 U+5408 U+5916
  U+51FA, U+5916 U+51FA (going out) in the lower-cased query the suitability answer is
  taken when it is true. Otherwise, and also when it was false, the formatted text or the
  plain report is the reply; the subscripts of the report are not protected and may raise.
\<close>

definition weather_reply :: "env \<Rightarrow> str \<Rightarrow> str \<Rightarrow> pyval \<Rightarrow> py_exception + pyval" where
  "weather_reply e query city weather_data =
     (let asks_suitability =
            (str_in [36866, 21512, 22806, 20986] (py_lower e query) \<or>
             str_in [22806, 20986] (py_lower e query));
          suitability =
            (if asks_suitability then get_weather_suitability e weather_data else PNone)
      in if asks_suitability \<and> truthy suitability then Inr suitability
         else
           and_then (py_in (ascii ''formatted_text'') weather_data) (\<lambda>formatted.
             if formatted then subscript weather_data (ascii ''formatted_text'')
             else
               and_then (subscript weather_data (ascii ''main'')) (\<lambda>main1.
               and_then (subscript main1 (ascii ''temp'')) (\<lambda>temp.
               and_then (subscript weather_data (ascii ''weather'')) (\<lambda>weather.
               and_then (subscript0 weather) (\<lambda>weather0.
               and_then (subscript weather0 (ascii ''description'')) (\<lambda>weather_desc.
               and_then (subscript weather_data (ascii ''main'')) (\<lambda>main2.
               and_then (subscript main2 (ascii ''humidity'')) (\<lambda>humidity.
               and_then (subscript weather_data (ascii ''wind'')) (\<lambda>wind.
               and_then (subscript wind (ascii ''speed'')) (\<lambda>wind_speed.
               and_then (dict_get weather_data (ascii ''name'') (PStr city)) (\<lambda>city_name.
                 Inr (PStr (weather_report e city_name temp weather_desc humidity
                              wind_speed))))))))))))))"

text \<open>
  The \<open>try\<close> block of \<open>process_query\<close>: the reply it returns or the exception it raises,
  the client as the block leaves it, and the calls made. The two clock readings are those
  of the user message and of the assistant message. A reply is recorded as the assistant
  turn before it is returned.
\<close>

definition record_reply :: "str \<Rightarrow> str \<Rightarrow> MCPClient \<Rightarrow> MCPClient" where
  "record_reply reply ts client =
     client\<lparr>dialogue_memory := add_message role_assistant reply ts (dialogue_memory client)\<rparr>"

definition process_query_try ::
  "env \<Rightarrow> MCPClient \<Rightarrow> str \<Rightarrow> str \<Rightarrow> str \<Rightarrow> (py_exception + str) \<times> MCPClient \<times> event list" where
  "process_query_try e client query ts_user ts_reply =
     (let client1 = client\<lparr>dialogue_memory :=
                      add_message role_user query ts_user (dialogue_memory client)\<rparr>;
          routing = should_call_tool e client1 query
      in case tool_city (fst routing) of
           Some city \<Rightarrow>
             (let tool = call_weather_tool e client1 city;
                  weather_data = fst tool;
                  events = snd routing @ snd tool
              in if \<not> truthy weather_data then
                   (Inr (fallback_response city),
                    record_reply (fallback_response city) ts_reply client1, events)
                 else
                   (case weather_reply e query city weather_data of
                      Inl ex \<Rightarrow> (Inl ex, client1, events)
                    | Inr response \<Rightarrow>
                        (Inr (format_value e response),
                         record_reply (format_value e response) ts_reply client1, events)))
         | None \<Rightarrow>
             (let answer = get_local_model_response e client1 query
              in (Inr (fst answer), record_reply (fst answer) ts_reply client1,
                  snd routing @ snd answer)))"

text \<open>
  \<open>process_query\<close>: the block, and the handler \<open>except Exception\<close>, which records the
  apology as the assistant turn and returns it.
\<close>

definition process_query ::
  "env \<Rightarrow> MCPClient \<Rightarrow> str \<Rightarrow> str \<Rightarrow> str \<Rightarrow> str \<times> MCPClient \<times> event list" where
  "process_query e client query ts_user ts_reply =
     (case process_query_try e client query ts_user ts_reply of
        (Inr reply, client', events) \<Rightarrow> (reply, client', events)
      | (Inl ex, client', events) \<Rightarrow>
          (error_response, record_reply error_response ts_reply client', events))"

definition is_model_call :: "event \<Rightarrow> bool" where
  "is_model_call ev = (case ev of ModelCall request \<Rightarrow> True | ToolCall name city \<Rightarrow> False)"

definition is_tool_call :: "event \<Rightarrow> bool" where
  "is_tool_call ev = (case ev of ModelCall request \<Rightarrow> False | ToolCall name city \<Rightarrow> True)"


section \<open>Sample inputs\<close>

text \<open>
  A client right after construction and connection to a server that lists the tool; an
  environment whose completion endpoint always fails; and a structured weather value, in
  the shape the provider documents, with 36 degrees, a clear sky and wind speed 16.
\<close>

definition sample_client :: MCPClient where
  "sample_client = \<lparr>dialogue_memory = DialogueMemory_init, tools_available = True\<rparr>"

definition failing_env :: env where
  "failing_env = sample_env\<lparr>completions_create := (\<lambda>r. CompletionError)\<rparr>"

definition hot_windy_weather :: pyval where
  "hot_windy_weather =
     PDict [(ascii ''name'', PStr (ascii ''Beijing'')),
            (ascii ''main'', PDict [(ascii ''temp'', PInt 36), (ascii ''humidity'', PInt 40)]),
            (ascii ''weather'', PList [PDict [(ascii ''description'', PStr (ascii ''clear sky''))]]),
            (ascii ''wind'', PDict [(ascii ''speed'', PInt 16)])]"


text \<open>
  An environment in which the tool answers with the JSON object \<open>{"cod": 200}\<close>, which has
  none of the weather fields.
\<close>

definition incomplete_env :: env where
  "incomplete_env =
     sample_env\<lparr>call_tool := (\<lambda>name city. ToolText [123, 34, 99, 111, 100, 34, 58, 32, 50, 48, 48, 125]),
                json_loads := (\<lambda>s. Parsed (PDict [(ascii ''cod'', PInt 200)]))\<rparr>"


(* PROPERTIES *)

section \<open>The dialogue memory is bounded and first-in first-out\<close>

lemma add_message_bound5:
  assumes "max_history_length m = 5"
  shows "max_history_length (add_message r c ts m) = 5"
    and "history (add_message r c ts m) =
         (let h = history m @ [\<lparr>role = r, content = c, timestamp = ts\<rparr>]
          in drop (length h - 5) h)"
  using assms by (auto simp: add_message_def slice_from_def Let_def nat_diff_distrib')

lemma add_messages_bound5:
  assumes "max_history_length m = 5" and "length (history m) \<le> 5"
  shows "history (add_messages calls m) =
         drop (length (history m @ map message_of calls) - 5) (history m @ map message_of calls)"
  using assms
proof (induction calls arbitrary: m)
  case Nil
  then show ?case by simp
next
  case (Cons call calls)
  obtain r c ts where call: "call = (r, c, ts)" by (cases call)
  let ?m = "add_message r c ts m"
  let ?x = "\<lparr>role = r, content = c, timestamp = ts\<rparr>"
  have b: "max_history_length ?m = 5"
    using Cons.prems(1) by (rule add_message_bound5(1))
  have h: "history ?m = drop (length (history m) - 4) (history m @ [?x])"
    using add_message_bound5(2) [OF Cons.prems(1), of r c ts] by (simp add: Let_def)
  have l: "length (history ?m) \<le> 5"
    using Cons.prems(2) by (simp add: h)
  have "history (add_messages (call # calls) m) = history (add_messages calls ?m)"
    by (simp add: call)
  also have "\<dots> = drop (length (history ?m @ map message_of calls) - 5)
                     (history ?m @ map message_of calls)"
    by (rule Cons.IH [OF b l])
  also have "\<dots> = drop (length (history m @ map message_of (call # calls)) - 5)
                     (history m @ map message_of (call # calls))"
  proof (cases "length (history m) = 5")
    case True
    then show ?thesis by (simp add: h call message_of_def)
  next
    case False
    with Cons.prems(2) have "length (history m) - 4 = 0" by arith
    then show ?thesis by (simp add: h call message_of_def)
  qed
  finally show ?case .
qed

text \<open>
  Claim C1. Starting from a fresh memory, after any sequence of \<open>add_message\<close> calls the
  history holds at most 5 messages, and it is exactly the last 5 recorded messages (all of
  them when fewer were recorded) in the order of recording: the oldest are dropped first.
\<close>

theorem C1_memory_bounded_fifo:
  "length (history (add_messages calls DialogueMemory_init)) \<le> 5 \<and>
   history (add_messages calls DialogueMemory_init) =
     drop (length calls - 5) (map message_of calls)"
proof -
  have "history (add_messages calls DialogueMemory_init) =
        drop (length (history DialogueMemory_init @ map message_of calls) - 5)
             (history DialogueMemory_init @ map message_of calls)"
    by (rule add_messages_bound5) (simp_all add: DialogueMemory_init_def)
  then have "history (add_messages calls DialogueMemory_init) =
             drop (length calls - 5) (map message_of calls)"
    by (simp add: DialogueMemory_init_def)
  then show ?thesis by simp
qed

section \<open>What the rendered context contains\<close>

lemma newest_six_cases:
  obtains "r = []" | x1 where "r = [x1]" | x1 x2 where "r = [x1, x2]"
    | x1 x2 x3 where "r = [x1, x2, x3]" | x1 x2 x3 x4 where "r = [x1, x2, x3, x4]"
    | x1 x2 x3 x4 x5 where "r = [x1, x2, x3, x4, x5]"
    | x1 x2 x3 x4 x5 x6 s where "r = x1 # x2 # x3 # x4 # x5 # x6 # s"
proof -
  consider "length r = 0" | "length r = 1" | "length r = 2" | "length r = 3"
    | "length r = 4" | "length r = 5" | "6 \<le> length r"
    by arith
  then show thesis
  proof cases
    case 1 then show thesis using that(1) by simp
  next
    case 2 then show thesis using that(2) by (auto simp: length_Suc_conv)
  next
    case 3 then show thesis using that(3) by (auto simp: numeral_eq_Suc length_Suc_conv)
  next
    case 4 then show thesis using that(4) by (auto simp: numeral_eq_Suc length_Suc_conv)
  next
    case 5 then show thesis using that(5) by (auto simp: numeral_eq_Suc length_Suc_conv)
  next
    case 6 then show thesis using that(6) by (auto simp: numeral_eq_Suc length_Suc_conv)
  next
    case 7 then show thesis using that(7) by (auto simp: numeral_eq_Suc Suc_le_length_iff)
  qed
qed

lemma range_down2_unfold:
  "i > stop \<Longrightarrow> range_down2 i stop = i # range_down2 (i - 2) stop"
  "\<not> i > stop \<Longrightarrow> range_down2 i stop = []"
  by (simp_all add: range_down2.simps)

lemma three_pairs: "(3::nat) = Suc (Suc (Suc 0))"
  by simp

lemma range_down2_three: "range_down2 (n + 5) n = [n + 5, n + 3, n + 1]"
proof -
  have "range_down2 (n + 5) n = (n + 5) # range_down2 (n + 3) n"
    by (subst range_down2.simps) (simp add: add.commute)
  also have "range_down2 (n + 3) n = (n + 3) # range_down2 (n + 1) n"
    by (subst range_down2.simps) (simp add: add.commute)
  also have "range_down2 (n + 1) n = (n + 1) # range_down2 (n - 1) n"
    by (subst range_down2.simps) (simp add: add.commute)
  also have "range_down2 (n - 1) n = []"
    by (subst range_down2.simps) (simp add: add.commute)
  finally show ?thesis .
qed

lemma nth_newest_six:
  "(p @ [x6, x5, x4, x3, x2, x1]) ! (length p + 5) = x1"
  "(p @ [x6, x5, x4, x3, x2, x1]) ! (length p + 4) = x2"
  "(p @ [x6, x5, x4, x3, x2, x1]) ! (length p + 3) = x3"
  "(p @ [x6, x5, x4, x3, x2, x1]) ! (length p + 2) = x4"
  "(p @ [x6, x5, x4, x3, x2, x1]) ! (length p + 1) = x5"
  "(p @ [x6, x5, x4, x3, x2, x1]) ! (length p) = x6"
  by (simp_all add: nth_append)

lemma context_messages_six:
  "context_messages (rev (x1 # x2 # x3 # x4 # x5 # x6 # s)) =
   pairs_newest_first 3 (x1 # x2 # x3 # x4 # x5 # x6 # s)"
proof -
  let ?p = "rev s"
  let ?h = "?p @ [x6, x5, x4, x3, x2, x1]"
  let ?n = "int (length ?p)"
  have h: "rev (x1 # x2 # x3 # x4 # x5 # x6 # s) = ?h" by simp
  have len: "int (length ?h) - 1 = ?n + 5" "max (- 1) (int (length ?h) - 6) = ?n"
    by simp_all
  have n: "nat (?n + 5) = length ?p + 5" "nat (?n + 5 - 1) = length ?p + 4"
    "nat (?n + 3) = length ?p + 3" "nat (?n + 3 - 1) = length ?p + 2"
    "nat (?n + 1) = length ?p + 1" "nat (?n + 1 - 1) = length ?p"
    by simp_all
  have s5: "context_step ?h (?n + 5) =
      (if role x1 = role_user then [label_user @ content x1] else []) @
      (if role x2 = role_assistant then [label_assistant @ content x2] else [])"
    unfolding context_step_def n nth_newest_six by simp
  have s3: "context_step ?h (?n + 3) =
      (if role x3 = role_user then [label_user @ content x3] else []) @
      (if role x4 = role_assistant then [label_assistant @ content x4] else [])"
    unfolding context_step_def n nth_newest_six by simp
  have s1: "context_step ?h (?n + 1) =
      (if role x5 = role_user then [label_user @ content x5] else []) @
      (if role x6 = role_assistant then [label_assistant @ content x6] else [])"
    unfolding context_step_def n nth_newest_six by simp
  have "context_messages ?h =
      context_step ?h (?n + 5) @ context_step ?h (?n + 3) @ context_step ?h (?n + 1)"
    unfolding context_messages_def len range_down2_three by simp
  then show ?thesis
    unfolding h s5 s3 s1 by (simp add: three_pairs)
qed

lemma context_messages_newest_first:
  "context_messages (rev r) = pairs_newest_first 3 r"
proof (cases r rule: newest_six_cases)
  case 7
  then show ?thesis by (simp only: context_messages_six)
qed (simp_all add: context_messages_def range_down2_unfold context_step_def three_pairs)

lemma role_user_neq_assistant: "role_user \<noteq> role_assistant"
  by (simp add: role_user_def role_assistant_def ascii_def)

lemma alternating_pairs:
  assumes "alternating True r"
  shows "rev (pairs_newest_first 3 r) = map line_of (rev (take 6 r))"
  using assms role_user_neq_assistant
  by (cases r rule: newest_six_cases) (auto simp: three_pairs line_of_def)

lemma slice_from_newest_six: "slice_from (- 6) h = rev (take 6 (rev h))"
  by (simp add: slice_from_def take_rev nat_diff_distrib')

lemma get_recent_context_pairs:
  "get_recent_context m = join [10, 10] (rev (pairs_newest_first 3 (rev (history m))))"
proof -
  have "context_messages (history m) = pairs_newest_first 3 (rev (history m))"
    using context_messages_newest_first [of "rev (history m)"] by simp
  then show ?thesis
    by (auto simp: get_recent_context_def three_pairs)
qed

text \<open>
  Claim C4, as the code has it. \<open>get_recent_context\<close> reads the history from the newest
  turn backwards, two turns at a time and at most three times; of the two turns it keeps
  the newer one when that is a user turn and the older one when that is an assistant turn,
  so a user turn goes with the assistant turn stored just before it. The lines are
  joined oldest first. On an empty memory the result is the empty string, on a memory with
  a single user turn it is that turn's line, and on a memory whose turns alternate and
  end with a user turn it is the lines of the (at most six) newest turns in stored order.
\<close>

theorem C4_render_context:
  "get_recent_context m = join [10, 10] (rev (pairs_newest_first 3 (rev (history m)))) \<and>
   get_recent_context (m\<lparr>history := []\<rparr>) = [] \<and>
   get_recent_context (m\<lparr>history := [\<lparr>role = role_user, content = c, timestamp = ts\<rparr>]\<rparr>)
     = label_user @ c \<and>
   (alternating True (rev (history m)) \<longrightarrow>
      get_recent_context m = join [10, 10] (map line_of (slice_from (- 6) (history m))))"
proof (intro conjI impI)
  show "get_recent_context m = join [10, 10] (rev (pairs_newest_first 3 (rev (history m))))"
    by (rule get_recent_context_pairs)
  show "get_recent_context (m\<lparr>history := []\<rparr>) = []"
    by (simp add: get_recent_context_def)
  show "get_recent_context (m\<lparr>history := [\<lparr>role = role_user, content = c, timestamp = ts\<rparr>]\<rparr>)
     = label_user @ c"
    by (simp add: get_recent_context_pairs three_pairs)
next
  assume "alternating True (rev (history m))"
  then have "rev (pairs_newest_first 3 (rev (history m))) =
             map line_of (rev (take 6 (rev (history m))))"
    by (rule alternating_pairs)
  then show "get_recent_context m = join [10, 10] (map line_of (slice_from (- 6) (history m)))"
    by (simp only: get_recent_context_pairs slice_from_newest_six)
qed

theorem C4_render_context_witness:
  "alternating True (rev (history
     \<lparr>history = [\<lparr>role = role_user, content = ascii ''a'', timestamp = []\<rparr>,
                 \<lparr>role = role_assistant, content = ascii ''b'', timestamp = []\<rparr>,
                 \<lparr>role = role_user, content = ascii ''c'', timestamp = []\<rparr>],
      max_history_length = 5\<rparr>)) \<and>
   get_recent_context
     \<lparr>history = [\<lparr>role = role_user, content = ascii ''a'', timestamp = []\<rparr>,
                 \<lparr>role = role_assistant, content = ascii ''b'', timestamp = []\<rparr>,
                 \<lparr>role = role_user, content = ascii ''c'', timestamp = []\<rparr>],
      max_history_length = 5\<rparr>
   = label_user @ ascii ''a'' @ [10, 10] @ label_assistant @ ascii ''b'' @ [10, 10] @
     label_user @ ascii ''c''"
proof -
  let ?m = "\<lparr>history = [\<lparr>role = role_user, content = ascii ''a'', timestamp = []\<rparr>,
                 \<lparr>role = role_assistant, content = ascii ''b'', timestamp = []\<rparr>,
                 \<lparr>role = role_user, content = ascii ''c'', timestamp = []\<rparr>],
      max_history_length = 5\<rparr>"
  have a: "alternating True (rev (history ?m))"
    by simp
  have "alternating True (rev (history ?m)) \<longrightarrow>
        get_recent_context ?m = join [10, 10] (map line_of (slice_from (- 6) (history ?m)))"
    using C4_render_context [of ?m] by blast
  with a have "get_recent_context ?m =
      join [10, 10] (map line_of (slice_from (- 6) (history ?m)))"
    by (rule rev_mp)
  then have "get_recent_context ?m =
      label_user @ ascii ''a'' @ [10, 10] @ label_assistant @ ascii ''b'' @ [10, 10] @
      label_user @ ascii ''c''"
    by (simp add: slice_from_def line_of_def role_user_neq_assistant
          role_user_neq_assistant [symmetric])
  with a show ?thesis by (rule conjI)
qed

text \<open>
  On a memory holding exactly a user turn followed by an assistant reply the loop looks at
  the newest turn only as a user turn and at the one before it only as an assistant turn,
  so nothing is rendered: the result is the empty string, not the two lines.
\<close>

theorem C4_user_assistant_counterexample:
  "get_recent_context
     \<lparr>history = [\<lparr>role = role_user, content = ascii ''hi'', timestamp = []\<rparr>,
                 \<lparr>role = role_assistant, content = ascii ''hello'', timestamp = []\<rparr>],
      max_history_length = 5\<rparr> = [] \<and>
   get_recent_context
     \<lparr>history = [\<lparr>role = role_user, content = ascii ''hi'', timestamp = []\<rparr>,
                 \<lparr>role = role_assistant, content = ascii ''hello'', timestamp = []\<rparr>],
      max_history_length = 5\<rparr>
   \<noteq> label_user @ ascii ''hi'' @ [10, 10] @ label_assistant @ ascii ''hello''"
  by (simp add: get_recent_context_pairs three_pairs role_user_neq_assistant
        role_user_neq_assistant [symmetric] label_user_def)


section \<open>City name translation\<close>

lemma prefix_str_in: "prefix sub s \<Longrightarrow> str_in sub s"
  by (cases s) auto

lemma str_in_refl: "str_in s s"
  by (cases s) auto

lemma translate_city_loop_none:
  "\<forall>(k, v) \<in> set items. \<not> str_in k city \<Longrightarrow> translate_city_loop items city = None"
  by (induction items) (auto dest: prefix_str_in)

lemma translate_city_loop_first:
  "\<forall>(k, v) \<in> set pre. \<not> str_in k city \<Longrightarrow> str_in cn city \<Longrightarrow>
   translate_city_loop (pre @ (cn, en) # post) city = Some en"
  by (induction pre) (auto dest: prefix_str_in)

lemma map_of_no_substring:
  "\<forall>(k, v) \<in> set items. \<not> str_in k city \<Longrightarrow> map_of items city = None"
proof (rule ccontr)
  assume no: "\<forall>(k, v) \<in> set items. \<not> str_in k city" and "map_of items city \<noteq> None"
  then obtain v where "map_of items city = Some v" by auto
  then have "(city, v) \<in> set items" by (rule map_of_SomeD)
  with no have "\<not> str_in city city" by auto
  then show False by (simp add: str_in_refl)
qed

text \<open>
  Claim C5, as the code has it. For \<open>translate_city\<close> of Weather\_zh.py and Agent.py, with
  the table of the module \<open>city\<close> as a parameter: when the table maps U+5317 U+4EAC
  (Beijing) to "Beijing", so does the function; when the table has no entry for that name
  followed by U+5E02 (city) and the entry for Beijing comes before every other key that
  occurs in it, the function maps it to "Beijing" as well; a name in which no key of the
  table occurs is turned into the capitalised pinyin when pypinyin can be imported and is
  returned unchanged when not. \<open>translate_city\<close> of Ernie\_Client.py maps Beijing to
  "Beijing" and returns every name that is not a key of its table unchanged. Each function
  is total: there is no failure to report.
\<close>

theorem C5_translate_city:
  "(map_of (CITY_MAP e) [21271, 20140] = Some (ascii ''Beijing'') \<longrightarrow>
      translate_city e [21271, 20140] = ascii ''Beijing'') \<and>
   (CITY_MAP e = pre @ ([21271, 20140], ascii ''Beijing'') # post \<and>
    map_of (CITY_MAP e) [21271, 20140, 24066] = None \<and>
    (\<forall>(k, v) \<in> set pre. \<not> str_in k [21271, 20140, 24066]) \<longrightarrow>
      translate_city e [21271, 20140, 24066] = ascii ''Beijing'') \<and>
   ((\<forall>(k, v) \<in> set (CITY_MAP e). \<not> str_in k city) \<longrightarrow>
      translate_city e city =
        (case lazy_pinyin e of
           Some pinyin \<Rightarrow> py_capitalize e (concat (pinyin city))
         | None \<Rightarrow> city)) \<and>
   Ernie_Client_translate_city [21271, 20140] = ascii ''Beijing'' \<and>
   (map_of Ernie_Client_CITY_MAP city = None \<longrightarrow> Ernie_Client_translate_city city = city)"
proof (intro conjI impI)
  assume "map_of (CITY_MAP e) [21271, 20140] = Some (ascii ''Beijing'')"
  then show "translate_city e [21271, 20140] = ascii ''Beijing''"
    by (simp add: translate_city_def)
next
  assume a: "CITY_MAP e = pre @ ([21271, 20140], ascii ''Beijing'') # post \<and>
    map_of (CITY_MAP e) [21271, 20140, 24066] = None \<and>
    (\<forall>(k, v) \<in> set pre. \<not> str_in k [21271, 20140, 24066])"
  have s: "str_in [21271, 20140] [21271, 20140, 24066]" by simp
  from a have "\<forall>(k, v) \<in> set pre. \<not> str_in k [21271, 20140, 24066]" by blast
  then have "translate_city_loop (pre @ ([21271, 20140], ascii ''Beijing'') # post)
               [21271, 20140, 24066] = Some (ascii ''Beijing'')"
    using s by (rule translate_city_loop_first)
  moreover from a have "CITY_MAP e = pre @ ([21271, 20140], ascii ''Beijing'') # post"
    by blast
  ultimately have l: "translate_city_loop (CITY_MAP e) [21271, 20140, 24066] =
      Some (ascii ''Beijing'')"
    by (rule ssubst [where P = "\<lambda>t. translate_city_loop t [21271, 20140, 24066] = Some (ascii ''Beijing'')", rotated])
  from a have m: "map_of (CITY_MAP e) [21271, 20140, 24066] = None"
    by blast
  show "translate_city e [21271, 20140, 24066] = ascii ''Beijing''"
    unfolding translate_city_def m l by simp
next
  assume a: "\<forall>(k, v) \<in> set (CITY_MAP e). \<not> str_in k city"
  then have "map_of (CITY_MAP e) city = None" "translate_city_loop (CITY_MAP e) city = None"
    by (rule map_of_no_substring, rule translate_city_loop_none)
  then show "translate_city e city =
        (case lazy_pinyin e of
           Some pinyin \<Rightarrow> py_capitalize e (concat (pinyin city))
         | None \<Rightarrow> city)"
    by (simp add: translate_city_def)
next
  show "Ernie_Client_translate_city [21271, 20140] = ascii ''Beijing''"
    by (simp add: Ernie_Client_translate_city_def Ernie_Client_CITY_MAP_def)
next
  assume "map_of Ernie_Client_CITY_MAP city = None"
  then show "Ernie_Client_translate_city city = city"
    by (simp add: Ernie_Client_translate_city_def)
qed

text \<open>
  The theorem at \<open>sample_env\<close>, whose table starts with the entry for Beijing, and at the
  name "Paris", in which no key of the table occurs.
\<close>

theorem C5_translate_city_witness:
  "map_of (CITY_MAP sample_env) [21271, 20140] = Some (ascii ''Beijing'') \<and>
   translate_city sample_env [21271, 20140] = ascii ''Beijing'' \<and>
   CITY_MAP sample_env = [] @ ([21271, 20140], ascii ''Beijing'') # tl Ernie_Client_CITY_MAP \<and>
   map_of (CITY_MAP sample_env) [21271, 20140, 24066] = None \<and>
   translate_city sample_env [21271, 20140, 24066] = ascii ''Beijing'' \<and>
   list_all (\<lambda>(k, v). \<not> str_in k (ascii ''Paris'')) (CITY_MAP sample_env) \<and>
   translate_city sample_env (ascii ''Paris'') = ascii ''Paris'' \<and>
   map_of Ernie_Client_CITY_MAP (ascii ''Paris'') = None \<and>
   Ernie_Client_translate_city (ascii ''Paris'') = ascii ''Paris''"
proof -
  note c5 = C5_translate_city [of sample_env "[]" "tl Ernie_Client_CITY_MAP" "ascii ''Paris''"]
  have h1: "map_of (CITY_MAP sample_env) [21271, 20140] = Some (ascii ''Beijing'')"
    by (simp add: sample_env_def Ernie_Client_CITY_MAP_def)
  have h2: "CITY_MAP sample_env = [] @ ([21271, 20140], ascii ''Beijing'') # tl Ernie_Client_CITY_MAP"
    by (simp add: sample_env_def Ernie_Client_CITY_MAP_def)
  have h3: "map_of (CITY_MAP sample_env) [21271, 20140, 24066] = None"
    by (simp add: sample_env_def Ernie_Client_CITY_MAP_def)
  have h4: "\<forall>(k, v) \<in> set []. \<not> str_in k [21271, 20140, 24066]"
    by simp
  have h5: "\<forall>(k, v) \<in> set (CITY_MAP sample_env). \<not> str_in k (ascii ''Paris'')"
    by (simp add: sample_env_def Ernie_Client_CITY_MAP_def ascii_def)
  have h6: "map_of Ernie_Client_CITY_MAP (ascii ''Paris'') = None"
    by (simp add: Ernie_Client_CITY_MAP_def ascii_def)
  have r1: "translate_city sample_env [21271, 20140] = ascii ''Beijing''"
    using c5 h1 by blast
  have r2: "translate_city sample_env [21271, 20140, 24066] = ascii ''Beijing''"
    using c5 h2 h3 h4 by blast
  have "translate_city sample_env (ascii ''Paris'') =
        (case lazy_pinyin sample_env of
           Some pinyin \<Rightarrow> py_capitalize sample_env (concat (pinyin (ascii ''Paris'')))
         | None \<Rightarrow> ascii ''Paris'')"
    using c5 h5 by blast
  then have r3: "translate_city sample_env (ascii ''Paris'') = ascii ''Paris''"
    by (simp add: sample_env_def)
  have r4: "Ernie_Client_translate_city (ascii ''Paris'') = ascii ''Paris''"
    using c5 h6 by blast
  from h5 have h5': "list_all (\<lambda>(k, v). \<not> str_in k (ascii ''Paris'')) (CITY_MAP sample_env)"
    by (simp add: list_all_iff)
  from h1 r1 h2 h3 r2 h5' r3 h6 r4 show ?thesis by blast
qed

text \<open>
  \<open>translate_city\<close> of Ernie\_Client.py has no prefix or substring step: Beijing followed by
  U+5E02 is not a key of its table and comes back unchanged, not as "Beijing".
\<close>

theorem C5_Ernie_Client_suffix_counterexample:
  "Ernie_Client_translate_city [21271, 20140, 24066] = [21271, 20140, 24066] \<and>
   Ernie_Client_translate_city [21271, 20140, 24066] \<noteq> ascii ''Beijing''"
  by (simp add: Ernie_Client_translate_city_def Ernie_Client_CITY_MAP_def ascii_def)


section \<open>The routing decision\<close>

text \<open>
  Claim C10. Whatever the utterance, the memory and the behaviour of the completion
  endpoint (a reply, a reply without content, a failure), the pair that \<open>should_call_tool\<close>
  returns has a true first component exactly when its second component is not \<open>None\<close>.
  So the guard of \<open>process_query\<close> depends on the city alone (it selects the city when
  there is one and it is not the empty string), and it never sees "call the tool" together
  with no city.
\<close>

theorem C10_should_call_iff_city:
  "fst (fst (should_call_tool e client query)) =
     (snd (fst (should_call_tool e client query)) \<noteq> None) \<and>
   tool_city (fst (should_call_tool e client query)) =
     (case snd (fst (should_call_tool e client query)) of
        None \<Rightarrow> None
      | Some c \<Rightarrow> if c \<noteq> [] then Some c else None)"
proof -
  have iff: "fst (fst (should_call_tool e client query)) =
     (snd (fst (should_call_tool e client query)) \<noteq> None)"
    by (simp add: should_call_tool_def interpret_decision_def Let_def
          split: completion_result.splits option.splits)
  obtain b c where d: "fst (should_call_tool e client query) = (b, c)"
    by (cases "fst (should_call_tool e client query)")
  from iff d have "b = (c \<noteq> None)" by simp
  then have "tool_city (b, c) = (case c of None \<Rightarrow> None
      | Some x \<Rightarrow> if x \<noteq> [] then Some x else None)"
    by (cases c) (simp_all add: tool_city_def)
  with iff d show ?thesis by simp
qed

lemma should_call_tool_failure:
  assumes "\<not> is_weather_query query"
    and "completions_create e (decision_request (dialogue_memory client) query) = CompletionError \<or>
         completions_create e (decision_request (dialogue_memory client) query) = NoContent"
  shows "should_call_tool e client query =
         ((False, None), [ModelCall (decision_request (dialogue_memory client) query)])"
  using assms by (auto simp: should_call_tool_def Let_def)

lemma get_local_model_response_events:
  "snd (get_local_model_response e client query) =
   [ModelCall (answer_request (dialogue_memory client) query)]"
  by (simp add: get_local_model_response_def Let_def split: completion_result.splits)

text \<open>
  Claim C8. For an utterance without a weather keyword, so that the model is asked: when
  the completion call fails, or its reply has no content (reading it raises inside the same
  \<open>try\<close>), \<open>should_call_tool\<close> returns \<open>(False, None)\<close> after that one request; and a
  turn of \<open>process_query\<close> in which this happens makes no tool call.
\<close>

theorem C8_classification_fails_closed:
  "(\<not> is_weather_query query \<and>
    (completions_create e (decision_request (dialogue_memory client) query) = CompletionError \<or>
     completions_create e (decision_request (dialogue_memory client) query) = NoContent) \<longrightarrow>
    should_call_tool e client query =
      ((False, None), [ModelCall (decision_request (dialogue_memory client) query)])) \<and>
   (\<not> is_weather_query query \<and>
    (completions_create e (decision_request
        (add_message role_user query ts_user (dialogue_memory client)) query) = CompletionError \<or>
     completions_create e (decision_request
        (add_message role_user query ts_user (dialogue_memory client)) query) = NoContent) \<longrightarrow>
    filter is_tool_call (snd (snd (process_query e client query ts_user ts_reply))) = [])"
proof (intro conjI impI)
  assume "\<not> is_weather_query query \<and>
    (completions_create e (decision_request (dialogue_memory client) query) = CompletionError \<or>
     completions_create e (decision_request (dialogue_memory client) query) = NoContent)"
  then show "should_call_tool e client query =
      ((False, None), [ModelCall (decision_request (dialogue_memory client) query)])"
    by (simp add: should_call_tool_failure)
next
  let ?m1 = "add_message role_user query ts_user (dialogue_memory client)"
  let ?c1 = "client\<lparr>dialogue_memory := ?m1\<rparr>"
  assume a: "\<not> is_weather_query query \<and>
    (completions_create e (decision_request ?m1 query) = CompletionError \<or>
     completions_create e (decision_request ?m1 query) = NoContent)"
  have "should_call_tool e ?c1 query =
        ((False, None), [ModelCall (decision_request (dialogue_memory ?c1) query)])"
    by (rule should_call_tool_failure) (use a in simp_all)
  then have r: "should_call_tool e ?c1 query =
        ((False, None), [ModelCall (decision_request ?m1 query)])"
    by simp
  have "snd (snd (process_query e client query ts_user ts_reply)) =
        [ModelCall (decision_request ?m1 query), ModelCall (answer_request ?m1 query)]"
    by (simp add: process_query_def process_query_try_def Let_def r tool_city_def
          get_local_model_response_events)
  then show "filter is_tool_call (snd (snd (process_query e client query ts_user ts_reply))) = []"
    by (simp add: is_tool_call_def)
qed

text \<open>
  The theorem at the utterance U+4F60 U+597D (hello), with a completion endpoint that fails.
\<close>

theorem C8_classification_fails_closed_witness:
  "\<not> is_weather_query [20320, 22909] \<and>
   completions_create failing_env
     (decision_request (dialogue_memory sample_client) [20320, 22909]) = CompletionError \<and>
   should_call_tool failing_env sample_client [20320, 22909] =
     ((False, None), [ModelCall (decision_request (dialogue_memory sample_client) [20320, 22909])]) \<and>
   completions_create failing_env
     (decision_request (add_message role_user [20320, 22909] [] (dialogue_memory sample_client))
        [20320, 22909]) = CompletionError \<and>
   filter is_tool_call (snd (snd (process_query failing_env sample_client [20320, 22909] [] []))) = []"
proof -
  note c8 = C8_classification_fails_closed
    [of "[20320, 22909]" failing_env sample_client "[]" "[]"]
  have h1: "\<not> is_weather_query [20320, 22909]"
    by (simp add: is_weather_query_def weather_keywords_def)
  have h2: "completions_create failing_env
     (decision_request (dialogue_memory sample_client) [20320, 22909]) = CompletionError"
    by (simp add: failing_env_def)
  have h3: "completions_create failing_env
     (decision_request (add_message role_user [20320, 22909] [] (dialogue_memory sample_client))
        [20320, 22909]) = CompletionError"
    by (simp add: failing_env_def)
  have r1: "should_call_tool failing_env sample_client [20320, 22909] =
     ((False, None), [ModelCall (decision_request (dialogue_memory sample_client) [20320, 22909])])"
    using c8 h1 h2 by blast
  have r2: "filter is_tool_call
     (snd (snd (process_query failing_env sample_client [20320, 22909] [] []))) = []"
    using c8 h1 h3 by blast
  from h1 h2 r1 h3 r2 show ?thesis by blast
qed


section \<open>The suitability rules\<close>

text \<open>
  Claim C3, at a structured value with a temperature of 36 and a wind speed of 16. The
  first test of the temperature chain, \<open>temp > 30\<close>, already holds, so its \<open>elif temp > 35\<close>
  is not reached, and likewise \<open>wind_speed > 10\<close> holds before \<open>elif wind_speed > 15\<close>:
  the verdict is "not very suitable" with the reasons "temperature rather high" and "wind
  rather strong", not "not suitable" with "temperature too high" and "wind too strong".
\<close>

theorem C3_thresholds_at_36_degrees_wind_16:
  "get_weather_suitability sample_env hot_windy_weather =
     PStr (suitability_response sample_env (PStr (ascii ''Beijing'')) (PInt 36)
            (ascii ''clear sky'') (PInt 40) (PInt 16)
            (not_very_suitable, [[27668, 28201, 36739, 39640], [39118, 21147, 36739, 22823]]))"
  by (simp add: get_weather_suitability_def get_weather_suitability_try_def
        hot_windy_weather_def and_then_def judge_def judge_temperature_def
        judge_description_def judge_wind_def judge_air_quality_def str_method_def
        bad_weather_keywords_def sample_env_def ascii_def)


section \<open>Turns that end in a fallback\<close>

lemma str_in_sublist: "str_in sub s = sublist sub s"
  by (induction s) (simp_all add: sublist_Cons_right)

lemma call_weather_tool_no_model_call:
  "filter is_model_call (snd (call_weather_tool e client city)) = []"
  by (simp add: call_weather_tool_def Let_def is_model_call_def
        split: tool_result.splits parse_result.splits sum.splits)

text \<open>
  Two messages added to a memory with the bound 5: the history afterwards is the old
  history followed by the two messages, cut to its last five entries.
\<close>

lemma two_turns_recorded:
  assumes "max_history_length m = 5"
  shows "history (add_message r2 c2 t2 (add_message r1 c1 t1 m)) =
         drop (length (history m) - 3)
           (history m @ [\<lparr>role = r1, content = c1, timestamp = t1\<rparr>,
                         \<lparr>role = r2, content = c2, timestamp = t2\<rparr>])"
proof -
  let ?x1 = "\<lparr>role = r1, content = c1, timestamp = t1\<rparr>"
  let ?x2 = "\<lparr>role = r2, content = c2, timestamp = t2\<rparr>"
  let ?m1 = "add_message r1 c1 t1 m"
  have b: "max_history_length ?m1 = 5"
    using assms by (rule add_message_bound5(1))
  have h1: "history ?m1 = drop (length (history m) - 4) (history m @ [?x1])"
    using add_message_bound5(2) [OF assms, of r1 c1 t1] by (simp add: Let_def)
  have h2: "history (add_message r2 c2 t2 ?m1) =
      drop (length (history ?m1) - 4) (history ?m1 @ [?x2])"
    using add_message_bound5(2) [OF b, of r2 c2 t2] by (simp add: Let_def)
  show ?thesis
  proof (cases "length (history m) \<le> 4")
    case True
    then show ?thesis by (simp add: h2 h1)
  next
    case False
    then have l: "length (history ?m1) - 4 = 1"
      by (simp add: h1)
    from False have s: "Suc (length (history m) - 4) = length (history m) - 3"
      by arith
    from False have "history ?m1 @ [?x2] = drop (length (history m) - 4) (history m @ [?x1, ?x2])"
      by (simp add: h1)
    with False show ?thesis
      by (simp add: h2 l s)
  qed
qed

lemma record_reply_history:
  assumes "max_history_length (dialogue_memory client) = 5"
  shows "history (dialogue_memory (record_reply reply ts_reply
           (client\<lparr>dialogue_memory := add_message role_user query ts_user (dialogue_memory client)\<rparr>))) =
         drop (length (history (dialogue_memory client)) - 3)
           (history (dialogue_memory client) @
              [\<lparr>role = ascii ''user'', content = query, timestamp = ts_user\<rparr>,
               \<lparr>role = ascii ''assistant'', content = reply, timestamp = ts_reply\<rparr>])"
  using two_turns_recorded [OF assms]
  by (simp add: record_reply_def role_user_def role_assistant_def)

text \<open>
  The utterance U+5317 U+4EAC U+5929 U+6C14 (Beijing weather): the first pattern does not
  match, the second finds Beijing at the start.
\<close>

lemma extract_city_beijing_weather:
  "extract_city [21271, 20140, 22825, 27668] = Some [21271, 20140]"
  by (simp add: extract_city_def without_prefix_words_def strip_def isspace_def tier1_tail_def
        optional_char_def city_names_def)

lemma should_call_tool_beijing_weather:
  "should_call_tool e client [21271, 20140, 22825, 27668] = ((True, Some [21271, 20140]), [])"
  by (simp add: should_call_tool_def is_weather_query_def weather_keywords_def
        extract_city_beijing_weather)

lemma call_weather_tool_none_iff:
  "fst (call_weather_tool e client city) = PNone \<longleftrightarrow>
     (\<not> tools_available client \<or>
      call_tool e (ascii ''query_weather'') (translate_city e city) = ToolError \<or>
      call_tool e (ascii ''query_weather'') (translate_city e city) = ToolEmpty \<or>
      (\<exists>body. call_tool e (ascii ''query_weather'') (translate_city e city) = ToolText body \<and>
         (json_loads e body = ParseError \<or>
          (\<exists>v. json_loads e body = Parsed v \<and>
               (\<not> truthy v \<or> py_in (ascii ''error'') v \<noteq> Inr False)))))"
proof (cases "tools_available client")
  case False
  then show ?thesis by (simp add: call_weather_tool_def)
next
  case True
  show ?thesis
  proof (cases "call_tool e (ascii ''query_weather'') (translate_city e city)")
    case ToolError
    with True show ?thesis by (simp add: call_weather_tool_def Let_def)
  next
    case ToolEmpty
    with True show ?thesis by (simp add: call_weather_tool_def Let_def)
  next
    case (ToolText body)
    show ?thesis
    proof (cases "json_loads e body")
      case (Parsed v)
      have "truthy v \<Longrightarrow> v \<noteq> PNone" by auto
      with True ToolText Parsed show ?thesis
        by (auto simp: call_weather_tool_def Let_def split: sum.splits)
    next
      case JSONDecodeError
      with True ToolText show ?thesis by (simp add: call_weather_tool_def Let_def)
    next
      case ParseError
      with True ToolText show ?thesis by (simp add: call_weather_tool_def Let_def)
    qed
  qed
qed

text \<open>
  Claim C7. \<open>call_weather_tool\<close> returns \<open>None\<close> exactly when the tool is not
  available, the tool call raises, its result is empty, \<open>json.loads\<close> raises something other
  than JSONDecodeError, or the parsed value is false or has \<open>"error"\<close> in it (a JSON
  object with the key \<open>"error"\<close> in particular; a test \<open>"error" in\<close> that raises counts
  as well). When the routing selects a city and \<open>call_weather_tool\<close> returns \<open>None\<close>
  for it, in a client whose memory has the bound 5: the reply is the sentence U+62B1 U+6B49
  .. (sorry, I cannot get) followed by the city as routed and by .. U+4FE1 U+606F U+3002
  (the weather information; try again later or look at a weather application); the
  history of the memory afterwards is the old history, the user turn with the utterance and
  the assistant turn with this reply, cut to the last five; and the turn makes no model call
  beyond those of the routing.
\<close>

theorem C7_tool_error_fallback:
  "(max_history_length (dialogue_memory client) = 5 \<and>
    tool_city (fst (should_call_tool e (client\<lparr>dialogue_memory := add_message role_user query ts_user (dialogue_memory client)\<rparr>) query)) = Some city \<and>
    fst (call_weather_tool e (client\<lparr>dialogue_memory := add_message role_user query ts_user (dialogue_memory client)\<rparr>) city) = PNone \<longrightarrow>
      fst (process_query e client query ts_user ts_reply) =
        [25265, 27465, 65292, 25105, 26242, 26102, 26080, 27861, 33719, 21462] @ city @
        [30340, 22825, 27668, 20449, 24687, 12290, 20320, 21487, 20197, 31245, 21518, 20877, 35797,
         65292, 25110, 32773, 26597, 30475, 22825, 27668, 39044, 25253, 24212, 29992, 33719, 21462,
         26368, 26032, 20449, 24687, 12290] \<and>
      history (dialogue_memory (fst (snd (process_query e client query ts_user ts_reply)))) =
        drop (length (history (dialogue_memory client)) - 3)
          (history (dialogue_memory client) @
             [\<lparr>role = ascii ''user'', content = query, timestamp = ts_user\<rparr>,
              \<lparr>role = ascii ''assistant'',
               content =
                 [25265, 27465, 65292, 25105, 26242, 26102, 26080, 27861, 33719, 21462] @ city @
                 [30340, 22825, 27668, 20449, 24687, 12290, 20320, 21487, 20197, 31245, 21518, 20877, 35797,
                 65292, 25110, 32773, 26597, 30475, 22825, 27668, 39044, 25253, 24212, 29992, 33719, 21462,
                 26368, 26032, 20449, 24687, 12290],
               timestamp = ts_reply\<rparr>]) \<and>
      filter is_model_call (snd (snd (process_query e client query ts_user ts_reply))) =
        filter is_model_call (snd (should_call_tool e (client\<lparr>dialogue_memory := add_message role_user query ts_user (dialogue_memory client)\<rparr>) query))) \<and>
   (fst (call_weather_tool e client city) = PNone \<longleftrightarrow>
     (\<not> tools_available client \<or>
      call_tool e (ascii ''query_weather'') (translate_city e city) = ToolError \<or>
      call_tool e (ascii ''query_weather'') (translate_city e city) = ToolEmpty \<or>
      (\<exists>body. call_tool e (ascii ''query_weather'') (translate_city e city) = ToolText body \<and>
         (json_loads e body = ParseError \<or>
          (\<exists>v. json_loads e body = Parsed v \<and>
               (\<not> truthy v \<or> py_in (ascii ''error'') v \<noteq> Inr False)))))) \<and>
   (tools_available client \<and>
    call_tool e (ascii ''query_weather'') (translate_city e city) = ToolText body \<and>
    json_loads e body = Parsed (PDict d) \<and> map_of d (ascii ''error'') \<noteq> None \<longrightarrow>
      fst (call_weather_tool e client city) = PNone)"
proof (intro conjI impI)
  let ?c1 = "client\<lparr>dialogue_memory := add_message role_user query ts_user (dialogue_memory client)\<rparr>"
  let ?fb = "[25265, 27465, 65292, 25105, 26242, 26102, 26080, 27861, 33719, 21462] @ city @
        [30340, 22825, 27668, 20449, 24687, 12290, 20320, 21487, 20197, 31245, 21518, 20877, 35797,
         65292, 25110, 32773, 26597, 30475, 22825, 27668, 39044, 25253, 24212, 29992, 33719, 21462,
         26368, 26032, 20449, 24687, 12290]"
  assume a: "max_history_length (dialogue_memory client) = 5 \<and>
    tool_city (fst (should_call_tool e ?c1 query)) = Some city \<and>
    fst (call_weather_tool e ?c1 city) = PNone"
  then have t: "process_query_try e client query ts_user ts_reply =
      (Inr (fallback_response city), record_reply (fallback_response city) ts_reply ?c1,
       snd (should_call_tool e ?c1 query) @ snd (call_weather_tool e ?c1 city))"
    by (simp add: process_query_try_def Let_def)
  have fb: "fallback_response city = ?fb"
    by (simp add: fallback_response_def)
  from t have p: "process_query e client query ts_user ts_reply =
      (?fb, record_reply ?fb ts_reply ?c1,
       snd (should_call_tool e ?c1 query) @ snd (call_weather_tool e ?c1 city))"
    by (simp add: process_query_def fb)
  show "fst (process_query e client query ts_user ts_reply) = ?fb"
    by (simp add: p)
  from a have m: "max_history_length (dialogue_memory client) = 5" by simp
  show "history (dialogue_memory (fst (snd (process_query e client query ts_user ts_reply)))) =
        drop (length (history (dialogue_memory client)) - 3)
          (history (dialogue_memory client) @
             [\<lparr>role = ascii ''user'', content = query, timestamp = ts_user\<rparr>,
              \<lparr>role = ascii ''assistant'', content = ?fb, timestamp = ts_reply\<rparr>])"
    unfolding p fst_conv snd_conv by (rule record_reply_history [OF m])
  show "filter is_model_call (snd (snd (process_query e client query ts_user ts_reply))) =
        filter is_model_call (snd (should_call_tool e ?c1 query))"
    by (simp add: p call_weather_tool_no_model_call)
next
  show "fst (call_weather_tool e client city) = PNone \<longleftrightarrow>
     (\<not> tools_available client \<or>
      call_tool e (ascii ''query_weather'') (translate_city e city) = ToolError \<or>
      call_tool e (ascii ''query_weather'') (translate_city e city) = ToolEmpty \<or>
      (\<exists>body. call_tool e (ascii ''query_weather'') (translate_city e city) = ToolText body \<and>
         (json_loads e body = ParseError \<or>
          (\<exists>v. json_loads e body = Parsed v \<and>
               (\<not> truthy v \<or> py_in (ascii ''error'') v \<noteq> Inr False)))))"
    by (rule call_weather_tool_none_iff)
next
  assume "tools_available client \<and>
    call_tool e (ascii ''query_weather'') (translate_city e city) = ToolText body \<and>
    json_loads e body = Parsed (PDict d) \<and> map_of d (ascii ''error'') \<noteq> None"
  then show "fst (call_weather_tool e client city) = PNone"
    by (auto simp: call_weather_tool_def Let_def)
qed

text \<open>
  The theorem at the utterance "Beijing weather", with the tool of \<open>sample_env\<close>, which
  raises, and a client with an empty memory.
\<close>

theorem C7_tool_error_fallback_witness:
  "max_history_length (dialogue_memory sample_client) = 5 \<and>
   tool_city (fst (should_call_tool sample_env
       (sample_client\<lparr>dialogue_memory :=
          add_message role_user [21271, 20140, 22825, 27668] [] (dialogue_memory sample_client)\<rparr>)
       [21271, 20140, 22825, 27668])) = Some [21271, 20140] \<and>
   call_tool sample_env (ascii ''query_weather'') (translate_city sample_env [21271, 20140]) =
     ToolError \<and>
   fst (call_weather_tool sample_env
       (sample_client\<lparr>dialogue_memory :=
          add_message role_user [21271, 20140, 22825, 27668] [] (dialogue_memory sample_client)\<rparr>)
       [21271, 20140]) = PNone \<and>
   fst (process_query sample_env sample_client [21271, 20140, 22825, 27668] [] []) =
        [25265, 27465, 65292, 25105, 26242, 26102, 26080, 27861, 33719, 21462] @ [21271, 20140] @
        [30340, 22825, 27668, 20449, 24687, 12290, 20320, 21487, 20197, 31245, 21518, 20877, 35797,
         65292, 25110, 32773, 26597, 30475, 22825, 27668, 39044, 25253, 24212, 29992, 33719, 21462,
         26368, 26032, 20449, 24687, 12290] \<and>
   history (dialogue_memory (fst (snd (process_query sample_env sample_client
       [21271, 20140, 22825, 27668] [] [])))) =
     [\<lparr>role = ascii ''user'', content = [21271, 20140, 22825, 27668], timestamp = []\<rparr>,
      \<lparr>role = ascii ''assistant'',
       content =
        [25265, 27465, 65292, 25105, 26242, 26102, 26080, 27861, 33719, 21462] @ [21271, 20140] @
        [30340, 22825, 27668, 20449, 24687, 12290, 20320, 21487, 20197, 31245, 21518, 20877, 35797,
         65292, 25110, 32773, 26597, 30475, 22825, 27668, 39044, 25253, 24212, 29992, 33719, 21462,
         26368, 26032, 20449, 24687, 12290],
       timestamp = []\<rparr>] \<and>
   filter is_model_call (snd (snd (process_query sample_env sample_client
       [21271, 20140, 22825, 27668] [] []))) = []"
proof -
  let ?q = "[21271, 20140, 22825, 27668] :: str"
  let ?c1 = "sample_client\<lparr>dialogue_memory :=
          add_message role_user ?q [] (dialogue_memory sample_client)\<rparr>"
  let ?fb = "[25265, 27465, 65292, 25105, 26242, 26102, 26080, 27861, 33719, 21462] @ [21271, 20140] @
        [30340, 22825, 27668, 20449, 24687, 12290, 20320, 21487, 20197, 31245, 21518, 20877, 35797,
         65292, 25110, 32773, 26597, 30475, 22825, 27668, 39044, 25253, 24212, 29992, 33719, 21462,
         26368, 26032, 20449, 24687, 12290]"
  have h0: "max_history_length (dialogue_memory sample_client) = 5"
    by (simp add: sample_client_def DialogueMemory_init_def)
  have h1: "tool_city (fst (should_call_tool sample_env ?c1 ?q)) = Some [21271, 20140]"
    by (simp add: should_call_tool_beijing_weather tool_city_def)
  have h3: "call_tool sample_env (ascii ''query_weather'')
      (translate_city sample_env [21271, 20140]) = ToolError"
    by (simp add: sample_env_def)
  have h4: "fst (call_weather_tool sample_env ?c1 [21271, 20140]) = PNone"
    using C7_tool_error_fallback [where e = sample_env and client = ?c1
        and city = "[21271, 20140]"] h3
    by blast
  have r: "fst (process_query sample_env sample_client ?q [] []) = ?fb \<and>
      history (dialogue_memory (fst (snd (process_query sample_env sample_client ?q [] [])))) =
        drop (length (history (dialogue_memory sample_client)) - 3)
          (history (dialogue_memory sample_client) @
             [\<lparr>role = ascii ''user'', content = ?q, timestamp = []\<rparr>,
              \<lparr>role = ascii ''assistant'', content = ?fb, timestamp = []\<rparr>]) \<and>
      filter is_model_call (snd (snd (process_query sample_env sample_client ?q [] []))) =
        filter is_model_call (snd (should_call_tool sample_env ?c1 ?q))"
    using C7_tool_error_fallback [where e = sample_env and client = sample_client
        and query = ?q and ts_user = "[]" and ts_reply = "[]" and city = "[21271, 20140]"]
      h0 h1 h4
    by blast
  have e1: "drop (length (history (dialogue_memory sample_client)) - 3)
          (history (dialogue_memory sample_client) @
             [\<lparr>role = ascii ''user'', content = ?q, timestamp = []\<rparr>,
              \<lparr>role = ascii ''assistant'', content = ?fb, timestamp = []\<rparr>]) =
      [\<lparr>role = ascii ''user'', content = ?q, timestamp = []\<rparr>,
       \<lparr>role = ascii ''assistant'', content = ?fb, timestamp = []\<rparr>]"
    by (simp add: sample_client_def DialogueMemory_init_def)
  have e2: "filter is_model_call (snd (should_call_tool sample_env ?c1 ?q)) = []"
    by (simp add: should_call_tool_beijing_weather)
  from r have r1: "fst (process_query sample_env sample_client ?q [] []) = ?fb"
    and r2: "history (dialogue_memory (fst (snd (process_query sample_env sample_client ?q [] [])))) =
      [\<lparr>role = ascii ''user'', content = ?q, timestamp = []\<rparr>,
       \<lparr>role = ascii ''assistant'', content = ?fb, timestamp = []\<rparr>]"
    and r3: "filter is_model_call (snd (snd (process_query sample_env sample_client ?q [] []))) = []"
    unfolding e1 e2 by blast+
  from h0 h1 h3 h4 r1 r2 r3 show ?thesis by (intro conjI)
qed


section \<open>Exceptions inside a turn\<close>

lemma process_query_try_memory:
  "fst (process_query_try e client query ts_user ts_reply) = Inr reply \<Longrightarrow>
   fst (snd (process_query_try e client query ts_user ts_reply)) =
     record_reply reply ts_reply (client\<lparr>dialogue_memory := add_message role_user query ts_user (dialogue_memory client)\<rparr>)"
  by (auto simp: process_query_try_def Let_def
        split: option.splits sum.splits if_splits)

lemma process_query_try_raises_memory:
  "fst (process_query_try e client query ts_user ts_reply) = Inl ex \<Longrightarrow>
   fst (snd (process_query_try e client query ts_user ts_reply)) =
     client\<lparr>dialogue_memory := add_message role_user query ts_user (dialogue_memory client)\<rparr>"
  by (auto simp: process_query_try_def Let_def
        split: option.splits sum.splits if_splits)

lemma process_query_records:
  "fst (snd (process_query e client query ts_user ts_reply)) =
     record_reply (fst (process_query e client query ts_user ts_reply)) ts_reply
       (client\<lparr>dialogue_memory := add_message role_user query ts_user (dialogue_memory client)\<rparr>)"
proof -
  obtain r c ev where t: "process_query_try e client query ts_user ts_reply = (r, c, ev)"
    by (cases "process_query_try e client query ts_user ts_reply")
  show ?thesis
  proof (cases r)
    case (Inl x)
    with t have "c = client\<lparr>dialogue_memory := add_message role_user query ts_user (dialogue_memory client)\<rparr>"
      using process_query_try_raises_memory [of e client query ts_user ts_reply x] by simp
    with t Inl show ?thesis
      by (simp add: process_query_def)
  next
    case (Inr reply)
    with t have "c = record_reply reply ts_reply (client\<lparr>dialogue_memory := add_message role_user query ts_user (dialogue_memory client)\<rparr>)"
      using process_query_try_memory [of e client query ts_user ts_reply reply] by simp
    with t Inr show ?thesis
      by (simp add: process_query_def)
  qed
qed

text \<open>
  A JSON object from the tool that has no \<open>"error"\<close>, no \<open>"formatted_text"\<close> and no
  \<open>"main"\<close>: it is returned by \<open>call_weather_tool\<close>, the suitability answer for it is
  \<open>None\<close>, and the plain report raises KeyError at \<open>weather_data["main"]\<close>.
\<close>

lemma weather_reply_without_main:
  assumes "d \<noteq> []" and "map_of d (ascii ''formatted_text'') = None"
    and "map_of d (ascii ''main'') = None"
  shows "weather_reply e query city (PDict d) = Inl KeyError"
proof -
  have "get_weather_suitability e (PDict d) = PNone"
    using assms by (simp add: get_weather_suitability_def get_weather_suitability_try_def
        and_then_def)
  then show ?thesis
    using assms by (simp add: weather_reply_def Let_def and_then_def)
qed

lemma process_query_try_without_main:
  assumes "tool_city (fst (should_call_tool e (client\<lparr>dialogue_memory := add_message role_user query ts_user (dialogue_memory client)\<rparr>) query)) = Some city"
    and "tools_available client"
    and "call_tool e (ascii ''query_weather'') (translate_city e city) = ToolText body"
    and "json_loads e body = Parsed (PDict d)" and "d \<noteq> []"
    and "map_of d (ascii ''error'') = None"
    and "map_of d (ascii ''formatted_text'') = None"
    and "map_of d (ascii ''main'') = None"
  shows "fst (process_query_try e client query ts_user ts_reply) = Inl KeyError"
proof -
  let ?c1 = "client\<lparr>dialogue_memory := add_message role_user query ts_user (dialogue_memory client)\<rparr>"
  have "fst (call_weather_tool e ?c1 city) = PDict d"
    using assms(2-6) by (simp add: call_weather_tool_def Let_def)
  moreover have "weather_reply e query city (PDict d) = Inl KeyError"
    using assms(5,7,8) by (rule weather_reply_without_main)
  ultimately show ?thesis
    using assms(1,5) by (simp add: process_query_try_def Let_def)
qed

text \<open>
  Claim C9. \<open>process_query\<close> is the \<open>try\<close> block followed by the handler
  \<open>except Exception\<close>, and it returns a reply in every case. In a client whose memory has
  the bound 5, the history afterwards is the old history, the user turn with the utterance
  and the assistant turn with the reply that is returned, cut to the last five; the rest of
  the client is unchanged. Whenever the block raises, the reply is the sentence U+62B1
  U+6B49 .. (sorry, an error occurred while handling your request, please try again
  later). The block does raise: when the routing selects a city and the tool answers with a
  JSON object that has none of the keys \<open>"error"\<close>, \<open>"formatted_text"\<close>, \<open>"main"\<close>, the
  report raises KeyError, and the reply is that sentence. (Failures of the completion
  calls and of the tool call are turned into values by the methods that make them.)
\<close>

theorem C9_process_query_never_raises:
  "(max_history_length (dialogue_memory client) = 5 \<longrightarrow>
      history (dialogue_memory (fst (snd (process_query e client query ts_user ts_reply)))) =
        drop (length (history (dialogue_memory client)) - 3)
          (history (dialogue_memory client) @
             [\<lparr>role = ascii ''user'', content = query, timestamp = ts_user\<rparr>,
              \<lparr>role = ascii ''assistant'',
               content = fst (process_query e client query ts_user ts_reply),
               timestamp = ts_reply\<rparr>])) \<and>
   tools_available (fst (snd (process_query e client query ts_user ts_reply))) =
     tools_available client \<and>
   (fst (process_query_try e client query ts_user ts_reply) = Inl ex \<longrightarrow>
      fst (process_query e client query ts_user ts_reply) =
        [25265, 27465, 65292, 22788, 29702, 20320, 30340, 35831, 27714, 26102, 20986, 29616, 20102,
         38169, 35823, 65292, 35831, 31245, 21518, 20877, 35797, 12290]) \<and>
   (tool_city (fst (should_call_tool e (client\<lparr>dialogue_memory := add_message role_user query ts_user (dialogue_memory client)\<rparr>) query)) = Some city \<and>
    tools_available client \<and>
    call_tool e (ascii ''query_weather'') (translate_city e city) = ToolText body \<and>
    json_loads e body = Parsed (PDict d) \<and> d \<noteq> [] \<and>
    map_of d (ascii ''error'') = None \<and>
    map_of d (ascii ''formatted_text'') = None \<and>
    map_of d (ascii ''main'') = None \<longrightarrow>
      fst (process_query_try e client query ts_user ts_reply) = Inl KeyError \<and>
      fst (process_query e client query ts_user ts_reply) =
        [25265, 27465, 65292, 22788, 29702, 20320, 30340, 35831, 27714, 26102, 20986, 29616, 20102,
         38169, 35823, 65292, 35831, 31245, 21518, 20877, 35797, 12290])"
proof (intro conjI impI)
  let ?apology = "[25265, 27465, 65292, 22788, 29702, 20320, 30340, 35831, 27714, 26102, 20986, 29616, 20102,
         38169, 35823, 65292, 35831, 31245, 21518, 20877, 35797, 12290]"
  have raises: "fst (process_query e client query ts_user ts_reply) = ?apology"
    if "fst (process_query_try e client query ts_user ts_reply) = Inl x" for x
    using that by (cases "process_query_try e client query ts_user ts_reply")
       (simp add: process_query_def error_response_def)
  {
    assume m: "max_history_length (dialogue_memory client) = 5"
    show "history (dialogue_memory (fst (snd (process_query e client query ts_user ts_reply)))) =
        drop (length (history (dialogue_memory client)) - 3)
          (history (dialogue_memory client) @
             [\<lparr>role = ascii ''user'', content = query, timestamp = ts_user\<rparr>,
              \<lparr>role = ascii ''assistant'',
               content = fst (process_query e client query ts_user ts_reply),
               timestamp = ts_reply\<rparr>])"
      unfolding process_query_records by (rule record_reply_history [OF m])
  }
  show "tools_available (fst (snd (process_query e client query ts_user ts_reply))) =
     tools_available client"
    unfolding process_query_records by (simp add: record_reply_def)
  {
    assume "fst (process_query_try e client query ts_user ts_reply) = Inl ex"
    then show "fst (process_query e client query ts_user ts_reply) = ?apology"
      by (rule raises)
  }
  assume a: "tool_city (fst (should_call_tool e (client\<lparr>dialogue_memory := add_message role_user query ts_user (dialogue_memory client)\<rparr>) query)) = Some city \<and>
    tools_available client \<and>
    call_tool e (ascii ''query_weather'') (translate_city e city) = ToolText body \<and>
    json_loads e body = Parsed (PDict d) \<and> d \<noteq> [] \<and>
    map_of d (ascii ''error'') = None \<and>
    map_of d (ascii ''formatted_text'') = None \<and>
    map_of d (ascii ''main'') = None"
  then show k: "fst (process_query_try e client query ts_user ts_reply) = Inl KeyError"
    by (intro process_query_try_without_main [where city = city and body = body and d = d])
       simp_all
  then show "fst (process_query e client query ts_user ts_reply) = ?apology"
    by (rule raises)
qed

text \<open>
  The theorem at the utterance "Beijing weather" with a tool that answers
  \<open>{"cod": 200}\<close>, and a client with an empty memory.
\<close>

theorem C9_process_query_never_raises_witness:
  "max_history_length (dialogue_memory sample_client) = 5 \<and>
   tool_city (fst (should_call_tool incomplete_env
       (sample_client\<lparr>dialogue_memory :=
          add_message role_user [21271, 20140, 22825, 27668] [] (dialogue_memory sample_client)\<rparr>)
       [21271, 20140, 22825, 27668])) = Some [21271, 20140] \<and>
   tools_available sample_client \<and>
   call_tool incomplete_env (ascii ''query_weather'')
       (translate_city incomplete_env [21271, 20140]) =
     ToolText [123, 34, 99, 111, 100, 34, 58, 32, 50, 48, 48, 125] \<and>
   json_loads incomplete_env [123, 34, 99, 111, 100, 34, 58, 32, 50, 48, 48, 125] =
     Parsed (PDict [(ascii ''cod'', PInt 200)]) \<and>
   fst (process_query_try incomplete_env sample_client [21271, 20140, 22825, 27668] [] []) =
     Inl KeyError \<and>
   fst (process_query incomplete_env sample_client [21271, 20140, 22825, 27668] [] []) =
        [25265, 27465, 65292, 22788, 29702, 20320, 30340, 35831, 27714, 26102, 20986, 29616, 20102,
         38169, 35823, 65292, 35831, 31245, 21518, 20877, 35797, 12290] \<and>
   history (dialogue_memory (fst (snd (process_query incomplete_env sample_client
       [21271, 20140, 22825, 27668] [] [])))) =
     [\<lparr>role = ascii ''user'', content = [21271, 20140, 22825, 27668], timestamp = []\<rparr>,
      \<lparr>role = ascii ''assistant'',
       content =
        [25265, 27465, 65292, 22788, 29702, 20320, 30340, 35831, 27714, 26102, 20986, 29616, 20102,
         38169, 35823, 65292, 35831, 31245, 21518, 20877, 35797, 12290],
       timestamp = []\<rparr>]"
proof -
  let ?q = "[21271, 20140, 22825, 27668] :: str"
  let ?c1 = "sample_client\<lparr>dialogue_memory :=
          add_message role_user ?q [] (dialogue_memory sample_client)\<rparr>"
  let ?apology = "[25265, 27465, 65292, 22788, 29702, 20320, 30340, 35831, 27714, 26102, 20986, 29616, 20102,
         38169, 35823, 65292, 35831, 31245, 21518, 20877, 35797, 12290]"
  let ?body = "[123, 34, 99, 111, 100, 34, 58, 32, 50, 48, 48, 125] :: str"
  let ?d = "[(ascii ''cod'', PInt 200)]"
  note c9 = C9_process_query_never_raises [where e = incomplete_env and client = sample_client
      and query = ?q and ts_user = "[]" and ts_reply = "[]" and city = "[21271, 20140]"
      and body = ?body and d = ?d and ex = KeyError]
  have h0: "max_history_length (dialogue_memory sample_client) = 5"
    by (simp add: sample_client_def DialogueMemory_init_def)
  have h1: "tool_city (fst (should_call_tool incomplete_env ?c1 ?q)) = Some [21271, 20140]"
    by (simp add: should_call_tool_beijing_weather tool_city_def)
  have h2: "tools_available sample_client"
    by (simp add: sample_client_def)
  have h3: "call_tool incomplete_env (ascii ''query_weather'')
       (translate_city incomplete_env [21271, 20140]) = ToolText ?body"
    by (simp add: incomplete_env_def)
  have h4: "json_loads incomplete_env ?body = Parsed (PDict ?d)"
    by (simp add: incomplete_env_def)
  have h5: "?d \<noteq> []" "map_of ?d (ascii ''error'') = None"
    "map_of ?d (ascii ''formatted_text'') = None" "map_of ?d (ascii ''main'') = None"
    by (simp_all add: ascii_def)
  have r: "fst (process_query_try incomplete_env sample_client ?q [] []) = Inl KeyError \<and>
      fst (process_query incomplete_env sample_client ?q [] []) = ?apology"
    using c9 h1 h2 h3 h4 h5 by blast
  have m: "history (dialogue_memory (fst (snd (process_query incomplete_env sample_client
        ?q [] [])))) =
      drop (length (history (dialogue_memory sample_client)) - 3)
        (history (dialogue_memory sample_client) @
           [\<lparr>role = ascii ''user'', content = ?q, timestamp = []\<rparr>,
            \<lparr>role = ascii ''assistant'',
             content = fst (process_query incomplete_env sample_client ?q [] []),
             timestamp = []\<rparr>])"
    using c9 h0 by blast
  from r have r2: "fst (process_query incomplete_env sample_client ?q [] []) = ?apology"
    by blast
  have m': "history (dialogue_memory (fst (snd (process_query incomplete_env sample_client
        ?q [] [])))) =
      [\<lparr>role = ascii ''user'', content = ?q, timestamp = []\<rparr>,
       \<lparr>role = ascii ''assistant'', content = ?apology, timestamp = []\<rparr>]"
    unfolding m r2 by (simp add: sample_client_def DialogueMemory_init_def)
  from r have r1: "fst (process_query_try incomplete_env sample_client ?q [] []) = Inl KeyError"
    by blast
  from h0 h1 h2 h3 h4 r1 r2 m' show ?thesis by (intro conjI)
qed


section \<open>Locations in weather utterances\<close>

lemma remove_all_disjoint_prefix:
  "set c \<inter> set old = {} \<Longrightarrow> remove_all old (c @ t) = c @ remove_all old t"
proof (induction c)
  case Nil
  then show ?case by simp
next
  case (Cons x c)
  have "\<not> (old \<noteq> [] \<and> prefix old (x # c @ t))"
  proof
    assume "old \<noteq> [] \<and> prefix old (x # c @ t)"
    then obtain os where "old = x # os"
      by (cases old) auto
    with Cons.prems show False by auto
  qed
  with Cons show ?case by auto
qed

lemma sublist_append_disjoint:
  "sublist c (a @ b) \<Longrightarrow> set c \<inter> set a = {} \<Longrightarrow> c \<noteq> [] \<Longrightarrow> sublist c b"
proof (induction a)
  case Nil
  then show ?case by simp
next
  case (Cons y a)
  from Cons.prems have "\<not> prefix c (y # a @ b)"
    by (cases c) auto
  with Cons.prems have "sublist c (a @ b)"
    by (simp add: sublist_Cons_right)
  with Cons show ?case by auto
qed

lemma remove_all_keeps:
  "sublist c s \<Longrightarrow> set c \<inter> set old = {} \<Longrightarrow> c \<noteq> [] \<Longrightarrow> sublist c (remove_all old s)"
proof (induction old s rule: remove_all.induct)
  case (1 old)
  then show ?case by simp
next
  case (2 old x xs)
  show ?case
  proof (cases "old \<noteq> [] \<and> prefix old (x # xs)")
    case True
    then obtain rest where r: "x # xs = old @ rest"
      by (auto simp: prefix_def)
    with True have rest: "rest = drop (length old - 1) xs"
      by (cases old) auto
    from "2.prems" r have "sublist c rest"
      using sublist_append_disjoint [of c old rest] by auto
    with rest have "sublist c (drop (length old - 1) xs)" by simp
    with "2.IH"(1) [OF True] "2.prems" have "sublist c (remove_all old (drop (length old - 1) xs))"
      by simp
    with True show ?thesis by simp
  next
    case False
    from "2.prems"(1) consider "prefix c (x # xs)" | "sublist c xs"
      by (auto simp: sublist_Cons_right)
    then show ?thesis
    proof cases
      case 1
      then obtain t where t: "x # xs = c @ t" by (auto simp: prefix_def)
      have "remove_all old (c @ t) = c @ remove_all old t"
        using "2.prems"(2) by (rule remove_all_disjoint_prefix)
      then have "sublist c (remove_all old (c @ t))"
        by (simp add: sublist_append_rightI)
      with t show ?thesis by simp
    next
      case 2
      with "2.IH"(2) [OF False] "2.prems" have "sublist c (remove_all old xs)" by simp
      with False show ?thesis by (auto simp: sublist_Cons_right)
    qed
  qed
qed

lemma dropWhile_keeps:
  "sublist c s \<Longrightarrow> c \<noteq> [] \<Longrightarrow> \<forall>x\<in>set c. \<not> P x \<Longrightarrow> sublist c (dropWhile P s)"
proof (induction s)
  case Nil
  then show ?case by simp
next
  case (Cons y s)
  show ?case
  proof (cases "P y")
    case True
    with Cons.prems have "\<not> prefix c (y # s)"
      by (cases c) auto
    with Cons.prems have "sublist c s" by (simp add: sublist_Cons_right)
    with Cons True show ?thesis by simp
  next
    case False
    with Cons.prems show ?thesis by simp
  qed
qed

lemma strip_keeps:
  assumes "sublist c s" "c \<noteq> []" "\<forall>x\<in>set c. \<not> isspace x"
  shows "sublist c (strip s)"
proof -
  have "sublist c (dropWhile isspace s)"
    using assms by (rule dropWhile_keeps)
  then have "sublist (rev c) (rev (dropWhile isspace s))" by simp
  then have "sublist (rev c) (dropWhile isspace (rev (dropWhile isspace s)))"
    using assms by (intro dropWhile_keeps) auto
  then show ?thesis
    unfolding strip_def by (simp add: sublist_rev_right)
qed

lemma strip_no_space:
  assumes "\<forall>x\<in>set g. \<not> isspace x"
  shows "strip g = g"
proof -
  have d: "dropWhile isspace h = h" if "\<forall>x\<in>set h. \<not> isspace x" for h
    using that by (cases h) auto
  have "dropWhile isspace g = g" using assms by (rule d)
  moreover have "dropWhile isspace (rev g) = rev g" using assms by (intro d) auto
  ultimately show ?thesis by (simp add: strip_def)
qed

lemma first_prefix_Some:
  "first_prefix names s = Some n \<Longrightarrow> n \<in> set names \<and> prefix n s"
  by (induction names) (auto split: if_splits)

lemma first_prefix_None:
  "first_prefix names s = None \<Longrightarrow> n \<in> set names \<Longrightarrow> \<not> prefix n s"
  by (induction names) (auto split: if_splits)

lemma name_search_finds:
  "sublist n s \<Longrightarrow> n \<in> set names \<Longrightarrow> n \<noteq> [] \<Longrightarrow> name_search names chars s \<noteq> None"
proof (induction s)
  case Nil
  then show ?case by simp
next
  case (Cons c cs)
  show ?case
  proof (cases "first_prefix names (c # cs)")
    case None
    with Cons.prems have "\<not> prefix n (c # cs)" by (simp add: first_prefix_None)
    with Cons.prems have "sublist n cs" by (simp add: sublist_Cons_right)
    with Cons None show ?thesis by simp
  next
    case (Some a)
    then show ?thesis by simp
  qed
qed

lemma name_search_shape:
  "name_search names chars s = Some g \<Longrightarrow>
   \<exists>n\<in>set names. g = n \<or> (\<exists>d\<in>set chars. g = n @ [d])"
proof (induction s)
  case Nil
  then show ?case by simp
next
  case (Cons c cs)
  show ?case
  proof (cases "first_prefix names (c # cs)")
    case None
    with Cons show ?thesis by simp
  next
    case (Some a)
    then have "a \<in> set names" by (simp add: first_prefix_Some)
    moreover from Some Cons.prems
    have "g = a @ optional_char chars (drop (length a) (c # cs))" by simp
    ultimately show ?thesis
      by (auto simp: optional_char_def split: list.splits if_splits)
  qed
qed


lemma city_names_chars:
  "list_all (\<lambda>n. n \<noteq> [] \<and>
      list_all (\<lambda>x. 19968 \<le> x \<and> x \<le> 40959 \<and> x \<noteq> 20320 \<and> x \<noteq> 35831 \<and> x \<noteq> 38382 \<and>
                    x \<noteq> 30693 \<and> x \<noteq> 36947) n) city_names"
  unfolding city_names_def by simp

lemma city_name_facts:
  assumes "n \<in> set city_names"
  shows "n \<noteq> []"
    and "set n \<inter> set [20320] = {}"
    and "set n \<inter> set [35831, 38382] = {}"
    and "set n \<inter> set [30693, 36947] = {}"
    and "\<forall>x\<in>set n. \<not> isspace x"
proof -
  have "\<forall>m\<in>set city_names. m \<noteq> [] \<and>
      (\<forall>x\<in>set m. 19968 \<le> x \<and> x \<le> 40959 \<and> x \<noteq> 20320 \<and> x \<noteq> 35831 \<and> x \<noteq> 38382 \<and>
                    x \<noteq> 30693 \<and> x \<noteq> 36947)"
    using city_names_chars unfolding list_all_iff .
  with assms have e: "n \<noteq> []" and f: "\<And>x. x \<in> set n \<Longrightarrow> 19968 \<le> x \<and> x \<noteq> 20320 \<and>
      x \<noteq> 35831 \<and> x \<noteq> 38382 \<and> x \<noteq> 30693 \<and> x \<noteq> 36947"
    by blast+
  have sp: "\<not> isspace x" if "19968 \<le> x" for x
    using that by (simp add: isspace_def)
  show "n \<noteq> []" by (rule e)
  show "set n \<inter> set [20320] = {}" using f by fastforce
  show "set n \<inter> set [35831, 38382] = {}" using f by fastforce
  show "set n \<inter> set [30693, 36947] = {}" using f by fastforce
  show "\<forall>x\<in>set n. \<not> isspace x" using f sp by blast
qed

lemma city_name_kept:
  assumes "n \<in> set city_names" and "sublist n query"
  shows "sublist n (without_prefix_words query)"
proof -
  note f = city_name_facts [OF assms(1)]
  have "sublist n (remove_all [20320] query)"
    using assms(2) f(2) f(1) by (rule remove_all_keeps)
  then have "sublist n (remove_all [35831, 38382] (remove_all [20320] query))"
    using f(3) f(1) by (rule remove_all_keeps)
  then have "sublist n (remove_all [30693, 36947]
      (remove_all [35831, 38382] (remove_all [20320] query)))"
    using f(4) f(1) by (rule remove_all_keeps)
  then show ?thesis
    unfolding without_prefix_words_def using f(1) f(5) by (rule strip_keeps)
qed

lemma city_match_unchanged_by_strip:
  assumes "n \<in> set city_names" and "g = n \<or> (\<exists>d\<in>set [24066, 30465]. g = n @ [d])"
  shows "strip g = g"
proof -
  have d: "\<not> isspace 24066" "\<not> isspace 30465"
    by (simp_all add: isspace_def)
  note sp = city_name_facts(5) [OF assms(1)]
  from assms(2) have "\<forall>x\<in>set g. \<not> isspace x"
  proof
    assume "g = n"
    with sp show ?thesis by simp
  next
    assume "\<exists>d\<in>set [24066, 30465]. g = n @ [d]"
    then have "g = n @ [24066] \<or> g = n @ [30465]" by simp
    with sp d show ?thesis by auto
  qed
  then show ?thesis by (rule strip_no_space)
qed

lemma first_prefix_no_head:
  "list_all (\<lambda>n. n \<noteq> [] \<and> hd n \<notin> A) names \<Longrightarrow> c \<in> A \<Longrightarrow> first_prefix names (c # cs) = None"
proof (induction names)
  case Nil
  then show ?case by simp
next
  case (Cons n names)
  then have "\<not> prefix n (c # cs)" by (cases n) auto
  with Cons show ?case by simp
qed

lemma name_search_no_head:
  "list_all (\<lambda>n. n \<noteq> [] \<and> hd n \<notin> A) names \<Longrightarrow> set s \<subseteq> A \<Longrightarrow> name_search names chars s = None"
  by (induction s) (simp_all add: first_prefix_no_head)

lemma city_heads_raining:
  "list_all (\<lambda>n. n \<noteq> [] \<and> hd n \<notin> {19979, 38632, 21527}) city_names"
  unfolding city_names_def by simp

lemma province_heads_raining:
  "list_all (\<lambda>n. n \<noteq> [] \<and> hd n \<notin> {19979, 38632, 21527}) province_names"
  unfolding province_names_def by simp

lemma extract_city_raining: "extract_city [19979, 38632, 21527] = None"
proof -
  have q: "without_prefix_words [19979, 38632, 21527] = [19979, 38632, 21527]"
    by (simp add: without_prefix_words_def strip_def isspace_def)
  have t1: "tier1_search [19979, 38632, 21527] = None"
    by (simp add: tier1_tail_def)
  have t2: "name_search city_names [24066, 30465] [19979, 38632, 21527] = None"
    using city_heads_raining by (rule name_search_no_head) simp
  have t3: "name_search province_names [30465, 24066, 33258, 27835, 21306]
      [19979, 38632, 21527] = None"
    using province_heads_raining by (rule name_search_no_head) simp
  show ?thesis
    unfolding extract_city_def Let_def q t1 t2 t3 by simp
qed

lemma extract_city_want_beijing:
  "extract_city [25105, 24819, 30693, 36947, 21271, 20140, 30340, 22825, 27668] =
   Some [25105, 24819, 21271, 20140]"
proof -
  have q: "without_prefix_words [25105, 24819, 30693, 36947, 21271, 20140, 30340, 22825, 27668] =
      [25105, 24819, 21271, 20140, 30340, 22825, 27668]"
    by (simp add: without_prefix_words_def strip_def isspace_def)
  have t1: "tier1_search [25105, 24819, 21271, 20140, 30340, 22825, 27668] =
      Some [25105, 24819, 21271, 20140]"
    by (simp add: tier1_tail_def)
  have s: "strip [25105, 24819, 21271, 20140] = [25105, 24819, 21271, 20140]"
    by (simp add: strip_def isspace_def)
  show ?thesis
    unfolding extract_city_def Let_def q t1 by (simp add: s)
qed

lemma not_listed_want_beijing: "[25105, 24819, 21271, 20140] \<notin> set city_names"
  unfolding city_names_def by simp

lemma name_search_sublist:
  "name_search names chars s = Some g \<Longrightarrow> sublist g s"
proof (induction s)
  case Nil
  then show ?case by simp
next
  case (Cons c cs)
  show ?case
  proof (cases "first_prefix names (c # cs)")
    case None
    with Cons have "sublist g cs" by simp
    then show ?thesis by (simp add: sublist_Cons_right)
  next
    case (Some a)
    then have "prefix a (c # cs)" by (simp add: first_prefix_Some)
    then obtain rest where r: "c # cs = a @ rest" by (auto simp: prefix_def)
    from Some Cons.prems have "g = a @ optional_char chars (drop (length a) (c # cs))"
      by simp
    with r have g: "g = a @ optional_char chars rest" by simp
    have "prefix (optional_char chars rest) rest"
      by (cases rest) (simp_all add: optional_char_def)
    with g r have "prefix g (c # cs)" by simp
    then show ?thesis by (rule prefix_imp_sublist)
  qed
qed

lemma tier1_at_sound:
  "tier1_at acc s = Some t \<Longrightarrow> \<exists>u post. t = acc @ u \<and> u \<noteq> [] \<and> s = u @ post \<and> tier1_tail post"
proof (induction s arbitrary: acc)
  case Nil
  then show ?case by simp
next
  case (Cons c cs)
  show ?case
  proof (cases "tier1_tail cs")
    case True
    with Cons.prems have "t = acc @ [c]" by (simp split: if_splits)
    with True show ?thesis by auto
  next
    case False
    with Cons.prems have "tier1_at (acc @ [c]) cs = Some t" by (simp split: if_splits)
    from Cons.IH [OF this] obtain u post where
      "t = (acc @ [c]) @ u" "cs = u @ post" "tier1_tail post"
      by blast
    then have "t = acc @ (c # u) \<and> c # u \<noteq> [] \<and> c # cs = (c # u) @ post \<and> tier1_tail post"
      by simp
    then show ?thesis by blast
  qed
qed

lemma tier1_search_sound:
  "tier1_search s = Some t \<Longrightarrow> \<exists>pre post. s = pre @ t @ post \<and> tier1_tail post"
proof (induction s)
  case Nil
  then show ?case by simp
next
  case (Cons c cs)
  show ?case
  proof (cases "tier1_at [] (c # cs)")
    case None
    with Cons.prems have "tier1_search cs = Some t" by simp
    from Cons.IH [OF this] obtain pre post where "cs = pre @ t @ post" "tier1_tail post"
      by blast
    then have "c # cs = (c # pre) @ t @ post \<and> tier1_tail post" by simp
    then show ?thesis by blast
  next
    case (Some g)
    with Cons.prems have "tier1_at [] (c # cs) = Some t" by simp
    from tier1_at_sound [OF this] obtain u post where
      "t = [] @ u" "c # cs = u @ post" "tier1_tail post"
      by blast
    then have "c # cs = [] @ t @ post \<and> tier1_tail post" by simp
    then show ?thesis by blast
  qed
qed

lemma strip_sublist: "sublist (strip t) t"
proof -
  let ?d = "dropWhile isspace t"
  have "suffix (dropWhile isspace (rev ?d)) (rev ?d)"
    by (rule suffix_dropWhile)
  then have "prefix (strip t) ?d"
    by (simp add: suffix_to_prefix strip_def)
  then have "sublist (strip t) ?d"
    by (rule prefix_imp_sublist)
  moreover have "sublist ?d t"
    using suffix_dropWhile by (rule suffix_imp_sublist)
  ultimately show ?thesis
    by (rule sublist_order.order.trans)
qed

text \<open>
  Claim C6, as the code has it. For an utterance with a weather keyword in which a city
  name of the list of the second pattern occurs, \<open>should_call_tool\<close> returns \<open>True\<close>
  with a city and asks no model. The city is what \<open>extract_city\<close> yields, and it is
  extracted from the utterance: it occurs, as one block, in the utterance without the three
  prefix words. When the first pattern matches there, the city is its capture, stripped;
  the capture is the text in front of one of the three words "now", "today", the possessive
  particle followed by "weather", whatever that text is. Only when the first pattern does
  not match is the city a name of the list, possibly followed by U+5E02 or U+7701.
\<close>

theorem C6_gazetteer_city:
  "is_weather_query query \<and> c \<in> set city_names \<and> str_in c query \<longrightarrow>
   (\<exists>g. should_call_tool e client query = ((True, Some g), []) \<and>
        extract_city query = Some g \<and>
        str_in g (without_prefix_words query) \<and>
        (case tier1_search (without_prefix_words query) of
           Some t \<Rightarrow>
             g = strip t \<and>
             (\<exists>pre post. without_prefix_words query = pre @ t @ post \<and> tier1_tail post)
         | None \<Rightarrow> (\<exists>n\<in>set city_names. g = n \<or> g = n @ [24066] \<or> g = n @ [30465])))"
proof
  assume a: "is_weather_query query \<and> c \<in> set city_names \<and> str_in c query"
  let ?q = "without_prefix_words query"
  from a have w: "is_weather_query query" and c: "c \<in> set city_names"
    and "sublist c query"
    by (simp_all add: str_in_sublist)
  from c this(3) have "sublist c ?q"
    by (rule city_name_kept)
  then have "name_search city_names [24066, 30465] ?q \<noteq> None"
    using c city_name_facts(1) [OF c] by (rule name_search_finds)
  then obtain g0 where g0: "name_search city_names [24066, 30465] ?q = Some g0"
    by blast
  from name_search_shape [OF g0] obtain n where n: "n \<in> set city_names"
      "g0 = n \<or> (\<exists>d\<in>set [24066, 30465]. g0 = n @ [d])"
    by blast
  then have s: "strip g0 = g0" by (rule city_match_unchanged_by_strip)
  show "\<exists>g. should_call_tool e client query = ((True, Some g), []) \<and>
        extract_city query = Some g \<and>
        str_in g ?q \<and>
        (case tier1_search ?q of
           Some t \<Rightarrow>
             g = strip t \<and> (\<exists>pre post. ?q = pre @ t @ post \<and> tier1_tail post)
         | None \<Rightarrow> (\<exists>n\<in>set city_names. g = n \<or> g = n @ [24066] \<or> g = n @ [30465]))"
  proof (cases "tier1_search ?q")
    case None
    have x: "extract_city query = Some g0"
      unfolding extract_city_def Let_def None g0 by (simp add: s)
    have y: "should_call_tool e client query = ((True, Some g0), [])"
      unfolding should_call_tool_def Let_def x using w by simp
    have i: "str_in g0 ?q"
      unfolding str_in_sublist using g0 by (rule name_search_sublist)
    from n(2) have "g0 = n \<or> g0 = n @ [24066] \<or> g0 = n @ [30465]"
      by simp
    with n(1) have z: "\<exists>n\<in>set city_names. g0 = n \<or> g0 = n @ [24066] \<or> g0 = n @ [30465]"
      by (rule bexI [rotated])
    have "should_call_tool e client query = ((True, Some g0), []) \<and>
        extract_city query = Some g0 \<and>
        str_in g0 ?q \<and>
        (case tier1_search ?q of
           Some t \<Rightarrow>
             g0 = strip t \<and> (\<exists>pre post. ?q = pre @ t @ post \<and> tier1_tail post)
         | None \<Rightarrow> (\<exists>n\<in>set city_names. g0 = n \<or> g0 = n @ [24066] \<or> g0 = n @ [30465]))"
      unfolding None using x y z i by simp
    then show ?thesis by (rule exI)
  next
    case (Some t)
    have x: "extract_city query = Some (strip t)"
      unfolding extract_city_def Let_def Some by simp
    have y: "should_call_tool e client query = ((True, Some (strip t)), [])"
      unfolding should_call_tool_def Let_def x using w by simp
    from tier1_search_sound [OF Some]
    have p: "\<exists>pre post. ?q = pre @ t @ post \<and> tier1_tail post" .
    then have "sublist t ?q" by (auto simp: sublist_def)
    with strip_sublist have "sublist (strip t) ?q"
      by (rule sublist_order.order.trans)
    then have i: "str_in (strip t) ?q" by (simp add: str_in_sublist)
    have "should_call_tool e client query = ((True, Some (strip t)), []) \<and>
        extract_city query = Some (strip t) \<and>
        str_in (strip t) ?q \<and>
        (case tier1_search ?q of
           Some u \<Rightarrow>
             strip t = strip u \<and> (\<exists>pre post. ?q = pre @ u @ post \<and> tier1_tail post)
         | None \<Rightarrow> (\<exists>n\<in>set city_names. strip t = n \<or> strip t = n @ [24066] \<or>
                      strip t = n @ [30465]))"
      unfolding Some using x y p i by simp
    then show ?thesis by (rule exI)
  qed
qed

text \<open>
  The theorem at the utterance "Beijing weather" (U+5317 U+4EAC U+5929 U+6C14), where the
  first pattern does not match and the city is the listed name.
\<close>

theorem C6_gazetteer_city_witness:
  "is_weather_query [21271, 20140, 22825, 27668] \<and>
   [21271, 20140] \<in> set city_names \<and>
   str_in [21271, 20140] [21271, 20140, 22825, 27668] \<and>
   should_call_tool sample_env sample_client [21271, 20140, 22825, 27668] =
     ((True, Some [21271, 20140]), []) \<and>
   extract_city [21271, 20140, 22825, 27668] = Some [21271, 20140] \<and>
   str_in [21271, 20140] (without_prefix_words [21271, 20140, 22825, 27668])"
proof -
  let ?q = "[21271, 20140, 22825, 27668] :: str"
  have h1: "is_weather_query ?q"
    by (simp add: is_weather_query_def weather_keywords_def)
  have h2: "[21271, 20140] \<in> set city_names"
    unfolding city_names_def by simp
  have h3: "str_in [21271, 20140] ?q"
    by simp
  from C6_gazetteer_city [where query = ?q and c = "[21271, 20140]" and e = sample_env
      and client = sample_client] h1 h2 h3
  obtain g where g: "should_call_tool sample_env sample_client ?q = ((True, Some g), [])"
      "extract_city ?q = Some g" "str_in g (without_prefix_words ?q)"
    by blast
  from g(2) have "g = [21271, 20140]"
    by (simp add: extract_city_beijing_weather)
  with g h1 h2 h3 show ?thesis by blast
qed

text \<open>
  The utterance U+6211 U+60F3 U+77E5 U+9053 U+5317 U+4EAC U+7684 U+5929 U+6C14 (I would
  like to know the weather of Beijing) has a weather keyword and the listed name Beijing,
  but the first pattern captures everything before the particle: the city returned is U+6211
  U+60F3 U+5317 U+4EAC (I would like Beijing), which is not a name of the list.
\<close>

theorem C6_first_pattern_counterexample:
  "is_weather_query [25105, 24819, 30693, 36947, 21271, 20140, 30340, 22825, 27668] \<and>
   [21271, 20140] \<in> set city_names \<and>
   str_in [21271, 20140] [25105, 24819, 30693, 36947, 21271, 20140, 30340, 22825, 27668] \<and>
   should_call_tool sample_env sample_client
     [25105, 24819, 30693, 36947, 21271, 20140, 30340, 22825, 27668] =
     ((True, Some [25105, 24819, 21271, 20140]), []) \<and>
   [25105, 24819, 21271, 20140] \<notin> set city_names"
proof -
  let ?q = "[25105, 24819, 30693, 36947, 21271, 20140, 30340, 22825, 27668] :: str"
  have h1: "is_weather_query ?q"
    by (simp add: is_weather_query_def weather_keywords_def)
  have h2: "[21271, 20140] \<in> set city_names"
    unfolding city_names_def by simp
  have h3: "str_in [21271, 20140] ?q"
    by simp
  have r: "should_call_tool sample_env sample_client ?q =
      ((True, Some [25105, 24819, 21271, 20140]), [])"
    unfolding should_call_tool_def Let_def extract_city_want_beijing using h1 by simp
  from h1 h2 h3 r not_listed_want_beijing show ?thesis by blast
qed

text \<open>
  Claim C2, as the code has it. With a weather keyword in the utterance
  \<open>should_call_tool\<close> answers from \<open>extract_city\<close> alone and makes no request to the
  model: the result is \<open>(city is not None, city)\<close>, so it is \<open>(False, None)\<close> when no
  location is found. The model is asked exactly when the utterance has no weather keyword.
\<close>

theorem C2_keyword_path_is_final:
  "(is_weather_query query \<longrightarrow>
      should_call_tool e client query =
        ((extract_city query \<noteq> None, extract_city query), [])) \<and>
   (is_weather_query query \<and> extract_city query = None \<longrightarrow>
      should_call_tool e client query = ((False, None), [])) \<and>
   (\<not> is_weather_query query \<longrightarrow>
      snd (should_call_tool e client query) =
        [ModelCall (decision_request (dialogue_memory client) query)])"
proof (intro conjI impI)
  assume "is_weather_query query"
  then show "should_call_tool e client query =
      ((extract_city query \<noteq> None, extract_city query), [])"
    by (simp add: should_call_tool_def Let_def)
next
  assume "is_weather_query query \<and> extract_city query = None"
  then show "should_call_tool e client query = ((False, None), [])"
    by (simp add: should_call_tool_def Let_def)
next
  assume "\<not> is_weather_query query"
  then show "snd (should_call_tool e client query) =
      [ModelCall (decision_request (dialogue_memory client) query)]"
    by (cases "completions_create e (decision_request (dialogue_memory client) query)")
       (simp_all add: should_call_tool_def Let_def)
qed

text \<open>
  The theorem at the utterance U+4E0B U+96E8 U+5417 (is it raining?), which has a keyword
  and no location, and at U+4F60 U+597D (hello), which has no keyword.
\<close>

theorem C2_keyword_path_is_final_witness:
  "is_weather_query [19979, 38632, 21527] \<and>
   extract_city [19979, 38632, 21527] = None \<and>
   should_call_tool sample_env sample_client [19979, 38632, 21527] = ((False, None), []) \<and>
   \<not> is_weather_query [20320, 22909] \<and>
   snd (should_call_tool sample_env sample_client [20320, 22909]) =
     [ModelCall (decision_request (dialogue_memory sample_client) [20320, 22909])]"
proof -
  have h1: "is_weather_query [19979, 38632, 21527]"
    by (simp add: is_weather_query_def weather_keywords_def)
  have h2: "\<not> is_weather_query [20320, 22909]"
    by (simp add: is_weather_query_def weather_keywords_def)
  have r1: "should_call_tool sample_env sample_client [19979, 38632, 21527] = ((False, None), [])"
    using C2_keyword_path_is_final [where query = "[19979, 38632, 21527]" and e = sample_env
        and client = sample_client] h1 extract_city_raining
    by blast
  have r2: "snd (should_call_tool sample_env sample_client [20320, 22909]) =
     [ModelCall (decision_request (dialogue_memory sample_client) [20320, 22909])]"
    using C2_keyword_path_is_final [where query = "[20320, 22909]" and e = sample_env
        and client = sample_client] h2
    by blast
  from h1 extract_city_raining r1 h2 r2 show ?thesis by blast
qed

text \<open>
  "Is it raining?" has a weather keyword and no location. The decision is \<open>(False, None)\<close>
  and the list of requests is empty: the model (which in \<open>sample_env\<close> would have named
  Beijing) is not asked.
\<close>

theorem C2_no_fallback_counterexample:
  "is_weather_query [19979, 38632, 21527] \<and>
   extract_city [19979, 38632, 21527] = None \<and>
   should_call_tool sample_env sample_client [19979, 38632, 21527] = ((False, None), [])"
proof -
  have h1: "is_weather_query [19979, 38632, 21527]"
    by (simp add: is_weather_query_def weather_keywords_def)
  have "should_call_tool sample_env sample_client [19979, 38632, 21527] = ((False, None), [])"
    unfolding should_call_tool_def Let_def extract_city_raining using h1 by simp
  with h1 extract_city_raining show ?thesis by blast
qed

end
